theory Spec2Isabelle
  imports Main
begin

section \<open>JavaScript values used by the printer modules\<close>

text \<open>
  Strings are \<open>string\<close>; the numbers the printer modules handle (timeouts, retry
  counts, widths, line counts, ports) are integers, modelled as \<open>int\<close>. An optional
  field (\<open>field?: T\<close>) is an \<open>option\<close>: \<open>None\<close> is \<open>undefined\<close>.
  \<open>a || b\<close> takes \<open>b\<close> when \<open>a\<close> is falsy: \<open>undefined\<close>, the empty string,
  \<open>0\<close> or \<open>false\<close>.
\<close>

definition or_string :: "string option \<Rightarrow> string \<Rightarrow> string" where
  "or_string a b = (case a of None \<Rightarrow> b | Some s \<Rightarrow> if s = [] then b else s)"

definition or_number :: "int option \<Rightarrow> int \<Rightarrow> int" where
  "or_number a b = (case a of None \<Rightarrow> b | Some n \<Rightarrow> if n = 0 then b else n)"

definition or_bool :: "bool option \<Rightarrow> bool \<Rightarrow> bool" where
  "or_bool a b = (case a of None \<Rightarrow> b | Some x \<Rightarrow> if x then True else b)"

text \<open>\<open>`${n}`\<close> for a non-negative integer: its decimal digits.\<close>

fun string_of_nat :: "nat \<Rightarrow> string" where
  "string_of_nat n =
     (if n < 10 then [''0123456789'' ! n]
      else string_of_nat (n div 10) @ [''0123456789'' ! (n mod 10)])"

declare string_of_nat.simps [simp del]

definition string_of_int :: "int \<Rightarrow> string" where
  "string_of_int i = (if i < 0 then CHR ''-'' # string_of_nat (nat (- i)) else string_of_nat (nat i))"

text \<open>
  A JavaScript \<open>Map\<close> keeps its keys in insertion order: \<open>set\<close> on a key that is
  present replaces the value in place, on a new key appends; \<open>keys().next()\<close> is the
  oldest key. It is an association list.
\<close>

fun Map_set :: "'k \<Rightarrow> 'v \<Rightarrow> ('k \<times> 'v) list \<Rightarrow> ('k \<times> 'v) list" where
  "Map_set k v [] = [(k, v)]"
| "Map_set k v (p # m) = (if fst p = k then (k, v) # m else p # Map_set k v m)"

definition Map_get :: "'k \<Rightarrow> ('k \<times> 'v) list \<Rightarrow> 'v option" where
  "Map_get k m = map_of m k"

definition Map_has :: "'k \<Rightarrow> ('k \<times> 'v) list \<Rightarrow> bool" where
  "Map_has k m = (map_of m k \<noteq> None)"

definition Map_delete :: "'k \<Rightarrow> ('k \<times> 'v) list \<Rightarrow> ('k \<times> 'v) list" where
  "Map_delete k m = filter (\<lambda>p. fst p \<noteq> k) m"

definition Map_first_key :: "('k \<times> 'v) list \<Rightarrow> 'k option" where
  "Map_first_key m = (case m of [] \<Rightarrow> None | p # _ \<Rightarrow> Some (fst p))"

section \<open>types.ts\<close>

text \<open>
  The enums are string enums; a configuration read from JSON or cast in a test can hold
  any string, and validation checks membership, so the type, connection type and paper
  size of a configuration are strings compared with the enum's values.
\<close>

definition PrinterConnectionType_USB :: string where "PrinterConnectionType_USB = ''usb''"
definition PrinterConnectionType_SERIAL :: string where "PrinterConnectionType_SERIAL = ''serial''"
definition PrinterConnectionType_NETWORK :: string where "PrinterConnectionType_NETWORK = ''network''"
definition PrinterConnectionType_BLUETOOTH :: string where "PrinterConnectionType_BLUETOOTH = ''bluetooth''"

definition PrinterConnectionType_values :: "string list" where
  "PrinterConnectionType_values =
     [PrinterConnectionType_USB, PrinterConnectionType_SERIAL,
      PrinterConnectionType_NETWORK, PrinterConnectionType_BLUETOOTH]"

definition PaperSize_MM_80 :: string where "PaperSize_MM_80 = ''80mm''"
definition PaperSize_MM_78 :: string where "PaperSize_MM_78 = ''78mm''"
definition PaperSize_MM_76 :: string where "PaperSize_MM_76 = ''76mm''"
definition PaperSize_MM_58 :: string where "PaperSize_MM_58 = ''58mm''"
definition PaperSize_MM_57 :: string where "PaperSize_MM_57 = ''57mm''"
definition PaperSize_MM_44 :: string where "PaperSize_MM_44 = ''44mm''"

definition PaperSize_values :: "string list" where
  "PaperSize_values =
     [PaperSize_MM_80, PaperSize_MM_78, PaperSize_MM_76,
      PaperSize_MM_58, PaperSize_MM_57, PaperSize_MM_44]"

definition PrinterType_CBX_POS_89E :: string where "PrinterType_CBX_POS_89E = ''cbx_pos_89e''"
definition PrinterType_EPSON :: string where "PrinterType_EPSON = ''epson''"
definition PrinterType_STAR :: string where "PrinterType_STAR = ''star''"
definition PrinterType_GENERIC_ESC_POS :: string where "PrinterType_GENERIC_ESC_POS = ''generic_esc_pos''"

definition PrinterType_values :: "string list" where
  "PrinterType_values =
     [PrinterType_CBX_POS_89E, PrinterType_EPSON, PrinterType_STAR, PrinterType_GENERIC_ESC_POS]"

text \<open>
  The other enums are datatypes. \<open>FontSize.NORMAL\<close> is \<open>NORMAL_SIZE\<close>, and the error
  codes \<open>OUT_OF_PAPER\<close> and \<open>COVER_OPEN\<close> carry the suffix \<open>_CODE\<close>, since the names
  are taken by \<open>FontStyle\<close> and \<open>PrinterStatus\<close>.
\<close>

datatype PrinterStatus = IDLE | PRINTING | ERROR | OFFLINE | OUT_OF_PAPER | COVER_OPEN

datatype TextAlignment = LEFT | CENTER | RIGHT

datatype FontStyle = NORMAL | BOLD | ITALIC | UNDERLINE

datatype FontSize = SMALL | NORMAL_SIZE | LARGE | EXTRA_LARGE

text \<open>
  interface PrinterConfig. The fields \<open>id\<close>, \<open>name\<close> and \<open>type\<close> carry a prefix.
  The interface declares \<open>id\<close>, \<open>name\<close>, \<open>type\<close> and \<open>connectionString\<close> as
  strings; one that is missing is the empty string here, which validation treats as it
  treats \<open>undefined\<close> (both are falsy).
\<close>

record PrinterConfig =
  cfg_id :: string
  cfg_name :: string
  cfg_type :: string
  connectionType :: string
  connectionString :: string
  paperSize :: string
  characterSet :: "string option"
  timeout :: "int option"
  retryAttempts :: "int option"
  isDefault :: "bool option"

text \<open>\<open>Partial<PrinterConfig>\<close>: every field optional.\<close>

record PartialPrinterConfig =
  opt_id :: "string option"
  opt_name :: "string option"
  opt_type :: "string option"
  opt_connectionType :: "string option"
  opt_connectionString :: "string option"
  opt_paperSize :: "string option"
  opt_characterSet :: "string option"
  opt_timeout :: "int option"
  opt_retryAttempts :: "int option"
  opt_isDefault :: "bool option"

definition no_options :: PartialPrinterConfig where
  "no_options =
     \<lparr>opt_id = None, opt_name = None, opt_type = None, opt_connectionType = None,
      opt_connectionString = None, opt_paperSize = None, opt_characterSet = None,
      opt_timeout = None, opt_retryAttempts = None, opt_isDefault = None\<rparr>"

text \<open>
  The object spread \<open>{ ...c, ...options }\<close>: every field that \<open>options\<close> holds
  replaces the field of \<open>c\<close>.
\<close>

definition spread :: "PrinterConfig \<Rightarrow> PartialPrinterConfig \<Rightarrow> PrinterConfig" where
  "spread c options =
     \<lparr>cfg_id = (case opt_id options of None \<Rightarrow> cfg_id c | Some v \<Rightarrow> v),
      cfg_name = (case opt_name options of None \<Rightarrow> cfg_name c | Some v \<Rightarrow> v),
      cfg_type = (case opt_type options of None \<Rightarrow> cfg_type c | Some v \<Rightarrow> v),
      connectionType = (case opt_connectionType options of None \<Rightarrow> connectionType c | Some v \<Rightarrow> v),
      connectionString = (case opt_connectionString options of None \<Rightarrow> connectionString c | Some v \<Rightarrow> v),
      paperSize = (case opt_paperSize options of None \<Rightarrow> paperSize c | Some v \<Rightarrow> v),
      characterSet = (case opt_characterSet options of None \<Rightarrow> characterSet c | Some v \<Rightarrow> Some v),
      timeout = (case opt_timeout options of None \<Rightarrow> timeout c | Some v \<Rightarrow> Some v),
      retryAttempts = (case opt_retryAttempts options of None \<Rightarrow> retryAttempts c | Some v \<Rightarrow> Some v),
      isDefault = (case opt_isDefault options of None \<Rightarrow> isDefault c | Some v \<Rightarrow> Some v)\<rparr>"

text \<open>interface PrintJobConfig (fields prefixed with \<open>job_\<close>).\<close>

record PrintJobConfig =
  job_copies :: "int option"
  job_timeout :: "int option"
  job_priority :: "string option"
  job_retryOnError :: "bool option"
  job_paperCut :: "bool option"
  job_openCashDrawer :: "bool option"

definition default_job :: PrintJobConfig where
  "default_job =
     \<lparr>job_copies = None, job_timeout = None, job_priority = None,
      job_retryOnError = None, job_paperCut = None, job_openCashDrawer = None\<rparr>"

record TextFormat =
  alignment :: "TextAlignment option"
  style :: "FontStyle option"
  size :: "FontSize option"
  fmt_width :: "int option"
  fmt_height :: "int option"

definition no_format :: TextFormat where
  "no_format = \<lparr>alignment = None, style = None, size = None, fmt_width = None, fmt_height = None\<rparr>"

text \<open>
  The union PrintContent, one constructor per interface, the fields in the order of the
  declaration:
  PrintText content format; PrintBarcode data format width height includeText;
  PrintQRCode data size errorLevel; PrintImage path width height alignment;
  PrintLine character length; PrintFeed lines; PrintCut partial.
\<close>

datatype PrintContent =
    PrintText string "TextFormat option"
  | PrintBarcode string string "int option" "int option" "bool option"
  | PrintQRCode string "int option" "string option"
  | PrintImage string "int option" "int option" "TextAlignment option"
  | PrintLine "string option" "int option"
  | PrintFeed int
  | PrintCut "bool option"

datatype PrinterErrorCode =
    CONNECTION_FAILED | PRINTER_OFFLINE | OUT_OF_PAPER_CODE | COVER_OPEN_CODE | PAPER_JAM
  | OVERHEAT | LOW_VOLTAGE | COMMAND_ERROR | TIMEOUT | INVALID_CONFIG | PRINTER_NOT_FOUND
  | UNSUPPORTED_OPERATION

text \<open>
  What a \<open>throw\<close> carries: a plain \<open>Error(message)\<close>, or a
  \<open>PrinterError(message, code, printerId?, cause?)\<close>. A value that is not an Error
  is turned into \<open>new Error(String(value))\<close> by every handler of these modules before
  it is used, so it is an \<open>Error\<close> here.
\<close>

datatype exn =
    Error string
  | PrinterError string PrinterErrorCode "string option" "exn option"

fun message :: "exn \<Rightarrow> string" where
  "message (Error m) = m"
| "message (PrinterError m c i e) = m"

fun code :: "exn \<Rightarrow> PrinterErrorCode option" where
  "code (Error m) = None"
| "code (PrinterError m c i e) = Some c"

text \<open>
  interface PrinterEvent, without its wall-clock timestamp. The data of an event is
  \<open>{oldStatus, newStatus}\<close>, \<open>{jobId}\<close>, \<open>{jobId, error}\<close>, an error, or absent.
\<close>

datatype EventData =
    NoData
  | StatusData PrinterStatus PrinterStatus
  | JobData string
  | JobFailedData string string
  | ErrorData exn

record PrinterEvent =
  ev_type :: string
  ev_printerId :: string
  ev_data :: EventData

section \<open>Tasks: code that may throw and changes a state\<close>

text \<open>
  An \<open>async\<close> method is run to its end, one call after the other (the drivers are used
  by one caller at a time). It returns a value or throws (\<open>Inl\<close>), and leaves a state.
\<close>

type_synonym ('a, 's) Task = "'s \<Rightarrow> (exn + 'a) \<times> 's"

definition returnT :: "'a \<Rightarrow> ('a, 's) Task" where
  "returnT x s = (Inr x, s)"

definition throwT :: "exn \<Rightarrow> ('a, 's) Task" where
  "throwT e s = (Inl e, s)"

definition bindT :: "('a, 's) Task \<Rightarrow> ('a \<Rightarrow> ('b, 's) Task) \<Rightarrow> ('b, 's) Task" where
  "bindT m f s = (case m s of (Inl e, s') \<Rightarrow> (Inl e, s') | (Inr x, s') \<Rightarrow> f x s')"

definition catchT :: "('a, 's) Task \<Rightarrow> (exn \<Rightarrow> ('a, 's) Task) \<Rightarrow> ('a, 's) Task" where
  "catchT m h s = (case m s of (Inl e, s') \<Rightarrow> h e s' | (Inr x, s') \<Rightarrow> (Inr x, s'))"

fun forEachT :: "('a \<Rightarrow> (unit, 's) Task) \<Rightarrow> 'a list \<Rightarrow> (unit, 's) Task" where
  "forEachT f [] = returnT ()"
| "forEachT f (x # xs) = bindT (f x) (\<lambda>_. forEachT f xs)"

section \<open>The printing libraries\<close>

text \<open>
  electron-pos-printer and node-thermal-printer are outside the repository. Every call
  the driver makes is recorded in \<open>calls\<close>, and answered by the library: it returns
  or throws (an error message), and may change its own state \<open>'d\<close> (the device, its
  buffers). The theorems hold for every library.
\<close>

datatype PosPrintData =
    PosText string "(string \<times> string) list" "string option"
  | PosBarCode string int int bool string
  | PosQrCode string int string
  | PosImage string string "int option" "int option"

record PosPrintOptions =
  preview :: bool
  margin :: string
  copies :: int
  printerName :: string
  timeOutPerLine :: int
  silent :: bool

datatype LibCall =
    PosPrinter_print "PosPrintData list" PosPrintOptions
  | isPrinterConnected
  | execute
  | getWidth
  | clear
  | println string
  | newLine
  | printBarcode string string
  | printQR string int string int
  | partialCut
  | cut
  | openCashDrawer_call
  | setTypeFontA
  | setTypeFontB
  | alignLeft
  | alignCenter
  | alignRight
  | bold bool
  | underline bool
  | setTextDoubleHeight
  | setTextQuadArea

text \<open>The argument of \<open>new ThermalPrinter(...)\<close>.\<close>

record ThermalInit =
  init_type :: string
  init_interface :: string
  init_characterSet :: string
  init_width :: int
  init_removeSpecialCharacters :: bool
  init_lineCharacter :: string

record 'd Library =
  lib_new :: "ThermalInit \<Rightarrow> string + 'd"
  lib_void :: "LibCall \<Rightarrow> 'd \<Rightarrow> string option \<times> 'd"
  lib_bool :: "LibCall \<Rightarrow> 'd \<Rightarrow> (string + bool) \<times> 'd"
  lib_number :: "LibCall \<Rightarrow> 'd \<Rightarrow> (string + int) \<times> 'd"

record 'd World =
  lib_state :: 'd
  calls :: "LibCall list"

definition call_void :: "'d Library \<Rightarrow> LibCall \<Rightarrow> (unit, 'd World) Task" where
  "call_void lib c w =
     (case lib_void lib c (lib_state w) of
        (r, d) \<Rightarrow>
          ((case r of None \<Rightarrow> Inr () | Some m \<Rightarrow> Inl (Error m)),
           \<lparr>lib_state = d, calls = calls w @ [c]\<rparr>))"

definition call_bool :: "'d Library \<Rightarrow> LibCall \<Rightarrow> (bool, 'd World) Task" where
  "call_bool lib c w =
     (case lib_bool lib c (lib_state w) of
        (r, d) \<Rightarrow>
          ((case r of Inr b \<Rightarrow> Inr b | Inl m \<Rightarrow> Inl (Error m)),
           \<lparr>lib_state = d, calls = calls w @ [c]\<rparr>))"

definition call_number :: "'d Library \<Rightarrow> LibCall \<Rightarrow> (int, 'd World) Task" where
  "call_number lib c w =
     (case lib_number lib c (lib_state w) of
        (r, d) \<Rightarrow>
          ((case r of Inr n \<Rightarrow> Inr n | Inl m \<Rightarrow> Inl (Error m)),
           \<lparr>lib_state = d, calls = calls w @ [c]\<rparr>))"

section \<open>interfaces.ts: BasePrinter\<close>

text \<open>
  The fields of a driver object: \<open>id\<close>, \<open>config\<close>, \<open>_isConnected\<close>, \<open>_status\<close> of
  BasePrinter and \<open>posPrinter\<close>, \<open>thermalPrinter\<close> (whether each is non-null) and
  \<open>lastJobId\<close> of CbxPos89ePrinter. \<open>emitted\<close> lists the events the driver has raised
  with \<open>emit\<close>, oldest first, and \<open>world\<close> is the library it drives. Listeners are
  outside the model: they are taken to return normally, and one for \<open>error\<close> events to
  be attached.
\<close>

record 'd Printer =
  prn_id :: string
  config :: PrinterConfig
  p_isConnected :: bool
  p_status :: PrinterStatus
  posPrinter :: bool
  thermalPrinter :: bool
  lastJobId :: nat
  emitted :: "PrinterEvent list"
  world :: "'d World"

definition isConnected :: "'d Printer \<Rightarrow> bool" where
  "isConnected p = p_isConnected p"

definition event :: "string \<Rightarrow> string \<Rightarrow> EventData \<Rightarrow> PrinterEvent" where
  "event t i d = \<lparr>ev_type = t, ev_printerId = i, ev_data = d\<rparr>"

definition emitEvent :: "string \<Rightarrow> EventData \<Rightarrow> 'd Printer \<Rightarrow> 'd Printer" where
  "emitEvent t d p = p\<lparr>emitted := emitted p @ [event t (prn_id p) d]\<rparr>"

text \<open>The job events among some events, in their order.\<close>

definition job_events :: "PrinterEvent list \<Rightarrow> PrinterEvent list" where
  "job_events es =
     filter (\<lambda>e. ev_type e \<in> set [''job_started'', ''job_completed'', ''job_failed'']) es"

definition setStatus :: "PrinterStatus \<Rightarrow> 'd Printer \<Rightarrow> 'd Printer" where
  "setStatus st p =
     (if p_status p \<noteq> st
      then emitEvent ''status_changed'' (StatusData (p_status p) st) (p\<lparr>p_status := st\<rparr>)
      else p)"

definition handleError :: "exn \<Rightarrow> ('a, 'd Printer) Task" where
  "handleError e p = (Inl e, emitEvent ''error'' (ErrorData e) p)"

text \<open>A task of the library, run by a driver.\<close>

definition inWorld :: "('a, 'd World) Task \<Rightarrow> ('a, 'd Printer) Task" where
  "inWorld m p = (case m (world p) of (r, w) \<Rightarrow> (r, p\<lparr>world := w\<rparr>))"

section \<open>printers/CbxPos89ePrinter.ts\<close>

definition getWidthFromPaperSize :: "string \<Rightarrow> int" where
  "getWidthFromPaperSize ps =
     or_number
       (map_of
          [(PaperSize_MM_80, 48), (PaperSize_MM_78, 46), (PaperSize_MM_76, 45),
           (PaperSize_MM_58, 32), (PaperSize_MM_57, 32), (PaperSize_MM_44, 24)] ps)
       48"

definition getInterfaceString :: "PrinterConfig \<Rightarrow> string" where
  "getInterfaceString c =
     (if connectionType c = ''usb'' then ''printer:'' @ connectionString c
      else if connectionType c = ''serial'' then connectionString c
      else if connectionType c = ''network'' then ''tcp://'' @ connectionString c
      else ''printer:'' @ connectionString c)"

text \<open>
  The constructor: \<open>super(id, config)\<close>, then initializePrinters, which wraps what
  \<open>new ThermalPrinter\<close> throws.
\<close>

definition CbxPos89ePrinter_new ::
  "'d Library \<Rightarrow> string \<Rightarrow> PrinterConfig \<Rightarrow> exn + 'd Printer" where
  "CbxPos89ePrinter_new lib i c =
     (case lib_new lib
             \<lparr>init_type = ''epson'',
              init_interface = getInterfaceString c,
              init_characterSet = ''PC437_USA'',
              init_width = getWidthFromPaperSize (paperSize c),
              init_removeSpecialCharacters = False,
              init_lineCharacter = ''=''\<rparr> of
        Inl m \<Rightarrow>
          Inl (PrinterError (''Failed to initialize CBX POS 89E printer: '' @ m)
                 INVALID_CONFIG (Some i) (Some (Error m)))
      | Inr d \<Rightarrow>
          Inr \<lparr>prn_id = i, config = c, p_isConnected = False, p_status = OFFLINE,
               posPrinter = True, thermalPrinter = True, lastJobId = 0, emitted = [],
               world = \<lparr>lib_state = d, calls = []\<rparr>\<rparr>)"

text \<open>
  connect(): the body of its \<open>try\<close>, then the method with its \<open>catch\<close>. There is no
  test of \<open>_isConnected\<close> before the probe.
\<close>

definition connect_try :: "'d Library \<Rightarrow> (unit, 'd Printer) Task" where
  "connect_try lib p =
     (let p1 = setStatus IDLE p in
      if thermalPrinter p1 then
        (case inWorld (call_bool lib isPrinterConnected) p1 of
           (Inl e, p2) \<Rightarrow> (Inl e, p2)
         | (Inr ok, p2) \<Rightarrow>
             if \<not> ok then (Inl (Error ''Printer not responding''), p2)
             else (Inr (), emitEvent ''connection_restored'' NoData (p2\<lparr>p_isConnected := True\<rparr>)))
      else (Inr (), emitEvent ''connection_restored'' NoData (p1\<lparr>p_isConnected := True\<rparr>)))"

definition connect :: "'d Library \<Rightarrow> (unit, 'd Printer) Task" where
  "connect lib =
     catchT (connect_try lib)
       (\<lambda>e p.
          handleError
            (PrinterError (''Failed to connect to CBX POS 89E printer: '' @ message e)
               CONNECTION_FAILED (Some (prn_id p)) (Some e))
            (setStatus OFFLINE (p\<lparr>p_isConnected := False\<rparr>)))"

definition disconnect_try :: "'d Library \<Rightarrow> (unit, 'd Printer) Task" where
  "disconnect_try lib p =
     (case (if thermalPrinter p then inWorld (call_void lib clear) p else (Inr (), p)) of
        (Inl e, p1) \<Rightarrow> (Inl e, p1)
      | (Inr _, p1) \<Rightarrow>
          (Inr (),
           emitEvent ''connection_lost'' NoData
             (setStatus OFFLINE (p1\<lparr>p_isConnected := False\<rparr>))))"

definition disconnect :: "'d Library \<Rightarrow> (unit, 'd Printer) Task" where
  "disconnect lib =
     catchT (disconnect_try lib)
       (\<lambda>e p.
          handleError
            (PrinterError (''Failed to disconnect from printer: '' @ message e)
               CONNECTION_FAILED (Some (prn_id p)) (Some e))
            p)"

definition getStatus :: "'d Library \<Rightarrow> (PrinterStatus, 'd Printer) Task" where
  "getStatus lib p =
     (if \<not> p_isConnected p then (Inr OFFLINE, p)
      else if thermalPrinter p then
        (case inWorld (call_bool lib isPrinterConnected) p of
           (Inl e, p1) \<Rightarrow> (Inr ERROR, setStatus ERROR p1)
         | (Inr ok, p1) \<Rightarrow>
             if \<not> ok then (Inr OFFLINE, setStatus OFFLINE p1)
             else (Inr (if p_status p1 = OFFLINE then IDLE else p_status p1), p1))
      else (Inr (if p_status p = OFFLINE then IDLE else p_status p), p))"

text \<open>
  \<open>s.repeat(n)\<close> throws a RangeError for a negative count.
\<close>

definition repeat :: "string \<Rightarrow> int \<Rightarrow> exn + string" where
  "repeat s n =
     (if n < 0 then Inl (Error (''Invalid count value: '' @ string_of_int n))
      else Inr (concat (replicate (nat n) s)))"

fun join :: "string \<Rightarrow> string list \<Rightarrow> string" where
  "join sep [] = []"
| "join sep [x] = x"
| "join sep (x # y # ys) = x @ sep @ join sep (y # ys)"

definition convertAlignment :: "TextAlignment \<Rightarrow> string" where
  "convertAlignment a = (case a of CENTER \<Rightarrow> ''center'' | RIGHT \<Rightarrow> ''right'' | LEFT \<Rightarrow> ''left'')"

definition convertFontSize :: "FontSize \<Rightarrow> string" where
  "convertFontSize z =
     (case z of SMALL \<Rightarrow> ''10px'' | LARGE \<Rightarrow> ''16px'' | EXTRA_LARGE \<Rightarrow> ''20px''
      | NORMAL_SIZE \<Rightarrow> ''12px'')"

definition format_or_empty :: "TextFormat option \<Rightarrow> TextFormat" where
  "format_or_empty f = (case f of None \<Rightarrow> no_format | Some g \<Rightarrow> g)"

definition convertTextStyle :: "TextFormat option \<Rightarrow> (string \<times> string) list" where
  "convertTextStyle fo =
     (let f = format_or_empty fo in
      [(''fontWeight'', if style f = Some BOLD then ''bold'' else ''normal''),
       (''textDecoration'', if style f = Some UNDERLINE then ''underline'' else ''none''),
       (''fontStyle'', if style f = Some ITALIC then ''italic'' else ''normal''),
       (''textAlign'', convertAlignment (case alignment f of None \<Rightarrow> LEFT | Some a \<Rightarrow> a)),
       (''fontSize'', convertFontSize (case size f of None \<Rightarrow> NORMAL_SIZE | Some z \<Rightarrow> z))])"

definition convertTextCSS :: "TextFormat option \<Rightarrow> string" where
  "convertTextCSS fo =
     (let f = format_or_empty fo in
      join ''; ''
        ((if style f = Some BOLD then [''font-weight: bold''] else [])
         @ (if style f = Some UNDERLINE then [''text-decoration: underline''] else [])
         @ (if style f = Some ITALIC then [''font-style: italic''] else [])
         @ [''text-align: '' @ convertAlignment (case alignment f of None \<Rightarrow> LEFT | Some a \<Rightarrow> a)]
         @ [''font-size: '' @ convertFontSize (case size f of None \<Rightarrow> NORMAL_SIZE | Some z \<Rightarrow> z)]))"

text \<open>
  printWithPosPrinter: the entries one content item pushes onto \<open>printData\<close> (a cut
  item pushes none), the loop over the content, and the call of \<open>PosPrinter.print\<close>.
  The methods below run on the library's state; they read \<open>this.id\<close>, \<open>this.config\<close>,
  \<open>this.posPrinter\<close> and \<open>this.thermalPrinter\<close>, given as arguments, and change no
  field of the driver.
\<close>

fun posPrintData :: "PrinterConfig \<Rightarrow> PrintContent \<Rightarrow> exn + PosPrintData list" where
  "posPrintData c (PrintText content fo) =
     Inr [PosText content (convertTextStyle fo) (Some (convertTextCSS fo))]"
| "posPrintData c (PrintLine ch len) =
     (case repeat (or_string ch ''-'') (or_number len (getWidthFromPaperSize (paperSize c))) of
        Inl e \<Rightarrow> Inl e
      | Inr v \<Rightarrow> Inr [PosText v [(''textAlign'', ''center'')] None])"
| "posPrintData c (PrintFeed n) =
     Inr (replicate (nat n) (PosText '' '' [(''fontSize'', ''1px'')] None))"
| "posPrintData c (PrintBarcode d f w h t) =
     Inr [PosBarCode d (or_number h 60) (or_number w 2) (t \<noteq> Some False) f]"
| "posPrintData c (PrintQRCode d z l) =
     Inr [PosQrCode d (or_number z 6) (or_string l ''M'')]"
| "posPrintData c (PrintImage path w h a) =
     Inr [PosImage path (convertAlignment (case a of None \<Rightarrow> CENTER | Some x \<Rightarrow> x)) w h]"
| "posPrintData c (PrintCut partial) = Inr []"

fun buildPrintData :: "PrinterConfig \<Rightarrow> PrintContent list \<Rightarrow> exn + PosPrintData list" where
  "buildPrintData c [] = Inr []"
| "buildPrintData c (x # xs) =
     (case posPrintData c x of
        Inl e \<Rightarrow> Inl e
      | Inr ys \<Rightarrow> (case buildPrintData c xs of Inl e \<Rightarrow> Inl e | Inr zs \<Rightarrow> Inr (ys @ zs)))"

definition printWithPosPrinter ::
  "'d Library \<Rightarrow> PrinterConfig \<Rightarrow> bool \<Rightarrow> PrintContent list \<Rightarrow> PrintJobConfig
     \<Rightarrow> (unit, 'd World) Task" where
  "printWithPosPrinter lib c pos content job =
     (if \<not> pos then throwT (Error ''PosPrinter not initialized'')
      else
        (case buildPrintData c content of
           Inl e \<Rightarrow> throwT e
         | Inr printData \<Rightarrow>
             call_void lib
               (PosPrinter_print printData
                  \<lparr>preview = False, margin = ''0 0 0 0'',
                   copies = or_number (job_copies job) 1,
                   printerName = connectionString c,
                   timeOutPerLine = or_number (timeout c) 400,
                   silent = True\<rparr>)))"

text \<open>applyTextFormatting: the calls it makes, in order.\<close>

definition applyTextFormatting :: "TextFormat option \<Rightarrow> LibCall list" where
  "applyTextFormatting fo =
     (let f = format_or_empty fo in
      [setTypeFontA, alignLeft]
      @ [case alignment f of Some CENTER \<Rightarrow> alignCenter | Some RIGHT \<Rightarrow> alignRight
         | _ \<Rightarrow> alignLeft]
      @ (if style f = Some BOLD then [bold True] else [])
      @ (if style f = Some UNDERLINE then [underline True] else [])
      @ (case size f of Some LARGE \<Rightarrow> [setTextDoubleHeight]
         | Some EXTRA_LARGE \<Rightarrow> [setTextQuadArea]
         | Some SMALL \<Rightarrow> [setTypeFontB]
         | _ \<Rightarrow> []))"

fun thermalItem :: "'d Library \<Rightarrow> PrintContent \<Rightarrow> (unit, 'd World) Task" where
  "thermalItem lib (PrintText content fo) =
     bindT (forEachT (call_void lib) (applyTextFormatting fo))
       (\<lambda>_. call_void lib (println content))"
| "thermalItem lib (PrintLine ch len) =
     bindT (if or_number len 0 = 0 then call_number lib getWidth else returnT (or_number len 0))
       (\<lambda>n. case repeat (or_string ch ''-'') n of
               Inl e \<Rightarrow> throwT e
             | Inr v \<Rightarrow> call_void lib (println v))"
| "thermalItem lib (PrintFeed n) =
     forEachT (\<lambda>_. call_void lib newLine) (replicate (nat n) ())"
| "thermalItem lib (PrintBarcode d f w h t) = call_void lib (printBarcode d f)"
| "thermalItem lib (PrintQRCode d z l) =
     call_void lib (printQR d (or_number z 3) (or_string l ''M'') 2)"
| "thermalItem lib (PrintCut partial) =
     call_void lib (if partial = Some True then partialCut else cut)"
| "thermalItem lib (PrintImage path w h a) = returnT ()"

definition printWithThermalPrinter ::
  "'d Library \<Rightarrow> bool \<Rightarrow> PrintContent list \<Rightarrow> (unit, 'd World) Task" where
  "printWithThermalPrinter lib thermal content =
     (if \<not> thermal then throwT (Error ''ThermalPrinter not initialized'')
      else
        bindT (call_void lib clear) (\<lambda>_.
        bindT (forEachT (thermalItem lib) content) (\<lambda>_.
        bindT (call_bool lib execute) (\<lambda>success.
          if \<not> success then throwT (Error ''Failed to execute thermal printer commands'')
          else returnT ()))))"

definition cutPaper_task :: "'d Library \<Rightarrow> string \<Rightarrow> bool \<Rightarrow> bool \<Rightarrow> (unit, 'd World) Task" where
  "cutPaper_task lib i thermal partial =
     catchT
       (if thermal then
          bindT (call_void lib (if partial then partialCut else cut)) (\<lambda>_.
          bindT (call_bool lib execute) (\<lambda>_. returnT ()))
        else returnT ())
       (\<lambda>e. throwT (PrinterError (''Failed to cut paper: '' @ message e)
                       COMMAND_ERROR (Some i) (Some e)))"

definition openCashDrawer_task :: "'d Library \<Rightarrow> string \<Rightarrow> bool \<Rightarrow> (unit, 'd World) Task" where
  "openCashDrawer_task lib i thermal =
     catchT
       (if thermal then
          bindT (call_void lib openCashDrawer_call) (\<lambda>_.
          bindT (call_bool lib execute) (\<lambda>_. returnT ()))
        else returnT ())
       (\<lambda>e. throwT (PrinterError (''Failed to open cash drawer: '' @ message e)
                       COMMAND_ERROR (Some i) (Some e)))"

definition feedPaper_task :: "'d Library \<Rightarrow> string \<Rightarrow> bool \<Rightarrow> int \<Rightarrow> (unit, 'd World) Task" where
  "feedPaper_task lib i thermal lines =
     catchT
       (if thermal then
          bindT (forEachT (\<lambda>_. call_void lib newLine) (replicate (nat lines) ())) (\<lambda>_.
          bindT (call_bool lib execute) (\<lambda>_. returnT ()))
        else returnT ())
       (\<lambda>e. throwT (PrinterError (''Failed to feed paper: '' @ message e)
                       COMMAND_ERROR (Some i) (Some e)))"

definition cutPaper :: "'d Library \<Rightarrow> bool \<Rightarrow> (unit, 'd Printer) Task" where
  "cutPaper lib partial p = inWorld (cutPaper_task lib (prn_id p) (thermalPrinter p) partial) p"

definition openCashDrawer :: "'d Library \<Rightarrow> (unit, 'd Printer) Task" where
  "openCashDrawer lib p = inWorld (openCashDrawer_task lib (prn_id p) (thermalPrinter p)) p"

definition feedPaper :: "'d Library \<Rightarrow> int \<Rightarrow> (unit, 'd Printer) Task" where
  "feedPaper lib lines p = inWorld (feedPaper_task lib (prn_id p) (thermalPrinter p) lines) p"

text \<open>
  print(content, config): what its \<open>try\<close> block does between \<open>job_started\<close> and the
  return to Idle (translation, execution, the cut unless \<open>paperCut\<close> is \<open>false\<close>, the
  cash drawer when asked for).
\<close>

definition print_job ::
  "'d Library \<Rightarrow> string \<Rightarrow> PrinterConfig \<Rightarrow> bool \<Rightarrow> bool \<Rightarrow> PrintContent list
     \<Rightarrow> PrintJobConfig \<Rightarrow> (unit, 'd World) Task" where
  "print_job lib i c pos thermal content job =
     bindT (if pos then printWithPosPrinter lib c pos content job
            else if thermal then printWithThermalPrinter lib thermal content
            else throwT (Error ''No printer interface available'')) (\<lambda>_.
     bindT (if job_paperCut job \<noteq> Some False then cutPaper_task lib i thermal False
            else returnT ()) (\<lambda>_.
     if job_openCashDrawer job = Some True then openCashDrawer_task lib i thermal
     else returnT ()))"

text \<open>
  The job identifier \<open>`cbx_${this.id}_${++this.lastJobId}_${Date.now()}`\<close>, with
  \<open>n\<close> the counter after its increment.
\<close>

definition jobId_of :: "string \<Rightarrow> nat \<Rightarrow> nat \<Rightarrow> string" where
  "jobId_of i n now = ''cbx_'' @ i @ ''_'' @ string_of_nat n @ ''_'' @ string_of_nat now"

definition print ::
  "'d Library \<Rightarrow> nat \<Rightarrow> PrintContent list \<Rightarrow> PrintJobConfig \<Rightarrow> (string, 'd Printer) Task" where
  "print lib now content job p =
     (let p1 = p\<lparr>lastJobId := lastJobId p + 1\<rparr>;
          jobId = jobId_of (prn_id p1) (lastJobId p1) now
      in
      if \<not> p_isConnected p1 then
        (Inl (PrinterError ''Printer not connected'' PRINTER_OFFLINE (Some (prn_id p1)) None), p1)
      else
        (let p2 = emitEvent ''job_started'' (JobData jobId) (setStatus PRINTING p1) in
         case inWorld
                (print_job lib (prn_id p2) (config p2) (posPrinter p2) (thermalPrinter p2)
                   content job) p2 of
           (Inr _, p3) \<Rightarrow>
             (Inr jobId, emitEvent ''job_completed'' (JobData jobId) (setStatus IDLE p3))
         | (Inl e, p3) \<Rightarrow>
             (Inl (PrinterError (''Print job failed: '' @ message e) COMMAND_ERROR
                     (Some (prn_id p3)) (Some e)),
              emitEvent ''job_failed'' (JobFailedData jobId (message e))
                (setStatus ERROR p3))))"

definition printText ::
  "'d Library \<Rightarrow> nat \<Rightarrow> string \<Rightarrow> PrintJobConfig \<Rightarrow> (string, 'd Printer) Task" where
  "printText lib now t job = print lib now [PrintText t None] job"

text \<open>selfTest(): everything it throws is caught and reported as \<open>false\<close>.\<close>

definition selfTest_try :: "'d Library \<Rightarrow> nat \<Rightarrow> (bool, 'd Printer) Task" where
  "selfTest_try lib now p =
     (if \<not> p_isConnected p then (Inr False, p)
      else if thermalPrinter p then inWorld (call_bool lib isPrinterConnected) p
      else bindT (printText lib now ''TEST'' (default_job\<lparr>job_paperCut := Some False\<rparr>))
             (\<lambda>_. returnT True) p)"

definition selfTest :: "'d Library \<Rightarrow> nat \<Rightarrow> (bool, 'd Printer) Task" where
  "selfTest lib now = catchT (selfTest_try lib now) (\<lambda>e. returnT False)"

text \<open>BasePrinter.dispose(): disconnects a connected driver, then drops the listeners.\<close>

definition dispose :: "'d Library \<Rightarrow> (unit, 'd Printer) Task" where
  "dispose lib p = (if p_isConnected p then disconnect lib p else (Inr (), p))"

section \<open>PrinterFactory.ts\<close>

text \<open>
  Characters are code units below 256. \<open>\d\<close> is an ASCII digit; \<open>parseInt(s, 10)\<close>
  skips leading white space, reads an optional sign and the decimal digits that follow,
  and is \<open>NaN\<close> (\<open>None\<close>) when there is no digit.
\<close>

definition is_digit :: "char \<Rightarrow> bool" where
  "is_digit c = (48 \<le> (of_char c :: nat) \<and> (of_char c :: nat) \<le> 57)"

definition is_space :: "char \<Rightarrow> bool" where
  "is_space c = ((of_char c :: nat) \<in> {9, 10, 11, 12, 13, 32, 160})"

definition digits_value :: "string \<Rightarrow> int" where
  "digits_value ds = foldl (\<lambda>v c. 10 * v + (int (of_char c) - 48)) 0 ds"

definition parseInt :: "string \<Rightarrow> int option" where
  "parseInt s =
     (let t = dropWhile is_space s;
          neg = (t \<noteq> [] \<and> hd t = CHR ''-'');
          u = (if t \<noteq> [] \<and> (hd t = CHR ''-'' \<or> hd t = CHR ''+'') then tl t else t);
          ds = takeWhile is_digit u
      in if ds = [] then None
         else Some (if neg then - digits_value ds else digits_value ds))"

text \<open>\<open>s.split(c)\<close> for a one-character separator.\<close>

fun split :: "char \<Rightarrow> string \<Rightarrow> string list" where
  "split c [] = [[]]"
| "split c (x # xs) =
     (if x = c then [] # split c xs
      else (case split c xs of [] \<Rightarrow> [[x]] | y # ys \<Rightarrow> (x # y) # ys))"

definition starts_with :: "string \<Rightarrow> string \<Rightarrow> bool" where
  "starts_with pre s = (take (length pre) s = pre)"

definition digits1 :: "string \<Rightarrow> bool" where
  "digits1 s = (s \<noteq> [] \<and> list_all is_digit s)"

text \<open>\<open>/^COM\d+$/i\<close>\<close>

definition windowsPattern :: "string \<Rightarrow> bool" where
  "windowsPattern s =
     (length s \<ge> 3
      \<and> (s ! 0 = CHR ''C'' \<or> s ! 0 = CHR ''c'')
      \<and> (s ! 1 = CHR ''O'' \<or> s ! 1 = CHR ''o'')
      \<and> (s ! 2 = CHR ''M'' \<or> s ! 2 = CHR ''m'')
      \<and> digits1 (drop 3 s))"

text \<open>\<open>/^\/dev\/(tty(USB|ACM|S)\d+|cu\..+)$/\<close>; \<open>.\<close> matches no line terminator.\<close>

definition unixPattern :: "string \<Rightarrow> bool" where
  "unixPattern s =
     (starts_with ''/dev/'' s
      \<and> (let r = drop 5 s in
           (starts_with ''tty'' r
            \<and> (let k = drop 3 r in
                 (starts_with ''USB'' k \<and> digits1 (drop 3 k))
                 \<or> (starts_with ''ACM'' k \<and> digits1 (drop 3 k))
                 \<or> (starts_with ''S'' k \<and> digits1 (drop 1 k))))
           \<or> (starts_with ''cu.'' r \<and> drop 3 r \<noteq> []
               \<and> list_all (\<lambda>c. c \<noteq> CHR 0x0A \<and> c \<noteq> CHR 0x0D) (drop 3 r))))"

definition validateUSBConnection :: "string \<Rightarrow> bool" where
  "validateUSBConnection cs =
     (if cs = [] \<or> length cs = 0 then False else length cs > 0 \<and> length cs < 256)"

definition validateSerialConnection :: "string \<Rightarrow> bool" where
  "validateSerialConnection cs =
     (if cs = [] then False else windowsPattern cs \<or> unixPattern cs)"

definition validateNetworkConnection :: "string \<Rightarrow> bool" where
  "validateNetworkConnection cs =
     (if cs = [] then False
      else
        (case split CHR '':'' cs of
           [host, portStr] \<Rightarrow>
             (if host = [] \<or> length host = 0 then False
              else
                (case parseInt portStr of
                   None \<Rightarrow> False
                 | Some port \<Rightarrow> if port < 1 \<or> port > 65535 then False else True))
         | _ \<Rightarrow> False))"

text \<open>\<open>v && (v < lo || v > hi)\<close> for an optional number.\<close>

definition truthy_and_outside :: "int option \<Rightarrow> int \<Rightarrow> int \<Rightarrow> bool" where
  "truthy_and_outside v lo hi =
     (case v of None \<Rightarrow> False | Some n \<Rightarrow> n \<noteq> 0 \<and> (n < lo \<or> n > hi))"

definition validateBasicConfig :: "PrinterConfig \<Rightarrow> bool" where
  "validateBasicConfig c =
     (if cfg_id c = [] \<or> cfg_name c = [] \<or> cfg_type c = [] \<or> connectionString c = []
        then False
      else if cfg_type c \<notin> set PrinterType_values then False
      else if connectionType c \<notin> set PrinterConnectionType_values then False
      else if paperSize c \<notin> set PaperSize_values then False
      else if truthy_and_outside (timeout c) 0 60000 then False
      else if truthy_and_outside (retryAttempts c) 0 10 then False
      else True)"

text \<open>
  A validator registered with the factory is any function of the configuration; it may
  throw, which validateConfig catches.
\<close>

definition validateCbxPos89eConfig :: "PrinterConfig \<Rightarrow> exn + bool" where
  "validateCbxPos89eConfig c =
     (if paperSize c \<notin> set [PaperSize_MM_80, PaperSize_MM_58, PaperSize_MM_57] then Inr False
      else if connectionType c = PrinterConnectionType_USB
        then Inr (validateUSBConnection (connectionString c))
      else if connectionType c = PrinterConnectionType_SERIAL
        then Inr (validateSerialConnection (connectionString c))
      else if connectionType c = PrinterConnectionType_NETWORK
        then Inr (validateNetworkConnection (connectionString c))
      else Inr False)"

definition validateGenericEscPosConfig :: "PrinterConfig \<Rightarrow> exn + bool" where
  "validateGenericEscPosConfig c = Inr True"

text \<open>
  The factory's two maps, from a type tag to a driver constructor and to a validator.
  \<open>'p\<close> is the type of driver objects.
\<close>

record 'p PrinterFactory =
  printerRegistry :: "(string \<times> (string \<Rightarrow> PrinterConfig \<Rightarrow> exn + 'p)) list"
  configValidators :: "(string \<times> (PrinterConfig \<Rightarrow> exn + bool)) list"

definition registerPrinterType ::
  "string \<Rightarrow> (string \<Rightarrow> PrinterConfig \<Rightarrow> exn + 'p) \<Rightarrow> (PrinterConfig \<Rightarrow> exn + bool) option
     \<Rightarrow> 'p PrinterFactory \<Rightarrow> 'p PrinterFactory" where
  "registerPrinterType t ctor validator fac =
     \<lparr>printerRegistry = Map_set t ctor (printerRegistry fac),
      configValidators =
        (case validator of None \<Rightarrow> configValidators fac
         | Some v \<Rightarrow> Map_set t v (configValidators fac))\<rparr>"

text \<open>\<open>new PrinterFactory()\<close>: registerDefaultPrinters on the empty maps.\<close>

definition PrinterFactory_new :: "'d Library \<Rightarrow> 'd Printer PrinterFactory" where
  "PrinterFactory_new lib =
     registerPrinterType PrinterType_GENERIC_ESC_POS (CbxPos89ePrinter_new lib)
       (Some validateGenericEscPosConfig)
       (registerPrinterType PrinterType_CBX_POS_89E (CbxPos89ePrinter_new lib)
          (Some validateCbxPos89eConfig)
          \<lparr>printerRegistry = [], configValidators = []\<rparr>)"

definition validateConfig :: "'p PrinterFactory \<Rightarrow> PrinterConfig \<Rightarrow> bool" where
  "validateConfig fac c =
     (if \<not> validateBasicConfig c then False
      else
        (case Map_get (cfg_type c) (configValidators fac) of
           None \<Rightarrow> True
         | Some validator \<Rightarrow>
             (case validator c of Inl e \<Rightarrow> False | Inr ok \<Rightarrow> if \<not> ok then False else True)))"

definition createPrinter :: "'p PrinterFactory \<Rightarrow> PrinterConfig \<Rightarrow> exn + 'p" where
  "createPrinter fac c =
     (if \<not> validateConfig fac c then
        Inl (PrinterError (''Invalid configuration for printer type: '' @ cfg_type c)
               INVALID_CONFIG None None)
      else
        (case Map_get (cfg_type c) (printerRegistry fac) of
           None \<Rightarrow>
             Inl (PrinterError (''Unsupported printer type: '' @ cfg_type c)
                    UNSUPPORTED_OPERATION None None)
         | Some PrinterClass \<Rightarrow>
             (case PrinterClass (cfg_id c) c of
                Inl e \<Rightarrow>
                  Inl (PrinterError (''Failed to create printer instance: '' @ message e)
                         INVALID_CONFIG None (Some e))
              | Inr printer \<Rightarrow> Inr printer)))"

definition getSupportedTypes :: "'p PrinterFactory \<Rightarrow> string list" where
  "getSupportedTypes fac = map fst (printerRegistry fac)"

section \<open>PrinterRegistry.ts\<close>

text \<open>
  The registry holds drivers through the interface IPrinter. The methods it calls are
  given as a record; those of CbxPos89ePrinter are \<open>CbxPos89ePrinter_methods\<close>.
\<close>

record 'p IPrinter =
  i_isConnected :: "'p \<Rightarrow> bool"
  i_dispose :: "(unit, 'p) Task"
  i_selfTest :: "(bool, 'p) Task"

definition CbxPos89ePrinter_methods :: "'d Library \<Rightarrow> nat \<Rightarrow> 'd Printer IPrinter" where
  "CbxPos89ePrinter_methods lib now =
     \<lparr>i_isConnected = isConnected, i_dispose = dispose lib, i_selfTest = selfTest lib now\<rparr>"

text \<open>The registry's own events: type, printer id and the configuration in the data.\<close>

record RegistryEvent =
  rev_type :: string
  rev_printerId :: string
  rev_config :: "PrinterConfig option"

record 'p PrinterRegistry =
  printers :: "(string \<times> 'p) list"
  configs :: "(string \<times> PrinterConfig) list"
  defaultPrinterId :: "string option"
  factory :: "'p PrinterFactory"
  reg_emitted :: "RegistryEvent list"

definition PrinterRegistry_new :: "'p PrinterFactory \<Rightarrow> 'p PrinterRegistry" where
  "PrinterRegistry_new fac =
     \<lparr>printers = [], configs = [], defaultPrinterId = None, factory = fac, reg_emitted = []\<rparr>"

definition reg_emit :: "string \<Rightarrow> string \<Rightarrow> PrinterConfig option \<Rightarrow> 'p PrinterRegistry \<Rightarrow> 'p PrinterRegistry" where
  "reg_emit t i c reg =
     reg\<lparr>reg_emitted := reg_emitted reg @ [\<lparr>rev_type = t, rev_printerId = i, rev_config = c\<rparr>]\<rparr>"

text \<open>registerPrinter: the body of its \<open>try\<close>, then the method with its \<open>catch\<close>.\<close>

definition registerPrinter_try :: "PrinterConfig \<Rightarrow> (string, 'p PrinterRegistry) Task" where
  "registerPrinter_try c reg =
     (if \<not> validateConfig (factory reg) c then
        (Inl (PrinterError ''Invalid printer configuration'' INVALID_CONFIG None None), reg)
      else if Map_has (cfg_id c) (printers reg) then
        (Inl (PrinterError (''Printer with ID '' @ [CHR 0x27] @ cfg_id c @ [CHR 0x27] @ '' already exists'')
                INVALID_CONFIG None None), reg)
      else
        (case createPrinter (factory reg) c of
           Inl e \<Rightarrow> (Inl e, reg)
         | Inr printer \<Rightarrow>
             (let reg1 = reg\<lparr>printers := Map_set (cfg_id c) printer (printers reg),
                              configs := Map_set (cfg_id c) c (configs reg)\<rparr>;
                  reg2 = (if isDefault c = Some True \<or> length (printers reg1) = 1
                          then reg1\<lparr>defaultPrinterId := Some (cfg_id c)\<rparr> else reg1)
              in (Inr (cfg_id c), reg_emit ''printer_registered'' (cfg_id c) (Some c) reg2))))"

definition registerPrinter :: "PrinterConfig \<Rightarrow> (string, 'p PrinterRegistry) Task" where
  "registerPrinter c =
     catchT (registerPrinter_try c)
       (\<lambda>e. throwT (PrinterError (''Failed to register printer: '' @ message e)
                       INVALID_CONFIG (Some (cfg_id c)) (Some e)))"

definition unregisterPrinter :: "'p IPrinter \<Rightarrow> string \<Rightarrow> (unit, 'p PrinterRegistry) Task" where
  "unregisterPrinter ops i reg =
     (case Map_get i (printers reg) of
        None \<Rightarrow>
          (Inl (PrinterError (''Printer '' @ [CHR 0x27] @ i @ [CHR 0x27] @ '' not found'')
                  PRINTER_NOT_FOUND (Some i) None), reg)
      | Some printer \<Rightarrow>
          (case i_dispose ops printer of
             (Inl e, printer') \<Rightarrow>
               (Inl (PrinterError (''Failed to unregister printer: '' @ message e)
                       CONNECTION_FAILED (Some i) (Some e)),
                reg\<lparr>printers := Map_set i printer' (printers reg)\<rparr>)
           | (Inr _, printer') \<Rightarrow>
               (let reg1 = reg\<lparr>printers := Map_delete i (printers reg),
                                configs := Map_delete i (configs reg)\<rparr>;
                    reg2 = (if defaultPrinterId reg1 = Some i
                            then reg1\<lparr>defaultPrinterId :=
                                   (if length (printers reg1) > 0
                                    then Map_first_key (printers reg1) else None)\<rparr>
                            else reg1)
                in (Inr (), reg_emit ''printer_unregistered'' i None reg2))))"

definition getPrinter :: "string \<Rightarrow> 'p PrinterRegistry \<Rightarrow> 'p option" where
  "getPrinter i reg = Map_get i (printers reg)"

definition getAllPrinters :: "'p PrinterRegistry \<Rightarrow> 'p list" where
  "getAllPrinters reg = map snd (printers reg)"

definition getAvailablePrinters :: "'p IPrinter \<Rightarrow> 'p PrinterRegistry \<Rightarrow> 'p list" where
  "getAvailablePrinters ops reg = filter (i_isConnected ops) (map snd (printers reg))"

definition getDefaultPrinter :: "'p PrinterRegistry \<Rightarrow> 'p option" where
  "getDefaultPrinter reg =
     (case defaultPrinterId reg of
        None \<Rightarrow> None
      | Some i \<Rightarrow> if i = [] then None else getPrinter i reg)"

text \<open>validatePrinter: \<open>false\<close> for an unknown id, and for a self-test that throws.\<close>

definition validatePrinter :: "'p IPrinter \<Rightarrow> string \<Rightarrow> (bool, 'p PrinterRegistry) Task" where
  "validatePrinter ops i reg =
     (case Map_get i (printers reg) of
        None \<Rightarrow> (Inr False, reg)
      | Some printer \<Rightarrow>
          (case i_selfTest ops printer of
             (Inl e, printer') \<Rightarrow> (Inr False, reg\<lparr>printers := Map_set i printer' (printers reg)\<rparr>)
           | (Inr ok, printer') \<Rightarrow> (Inr ok, reg\<lparr>printers := Map_set i printer' (printers reg)\<rparr>)))"

section \<open>ConfigManager.ts\<close>

text \<open>
  A \<open>number\<close> of JavaScript as far as the store is concerned: an integer, \<open>NaN\<close> or
  an infinity (fractions, which JSON writes and reads back exactly, are left out, and
  \<open>-0\<close> is not told apart from \<open>0\<close>). A number field of an object in the store holds a
  number, or \<open>null\<close> once the object has been read from JSON.
\<close>

datatype JSNumber = Finite int | NaN | PosInfinity | NegInfinity

datatype NumberField = Null | Number JSNumber

text \<open>
  A PrinterConfig object as the store holds it (saveConfig keeps a copy \<open>{ ...config }\<close>,
  importConfigs the parsed object): the fields of the interface, prefixed with \<open>st_\<close>,
  the two number fields with every value they can have at run time. \<open>stored\<close> is the
  stored copy of a configuration whose numbers are integers.
\<close>

record StoredConfig =
  st_id :: string
  st_name :: string
  st_type :: string
  st_connectionType :: string
  st_connectionString :: string
  st_paperSize :: string
  st_characterSet :: "string option"
  st_timeout :: "NumberField option"
  st_retryAttempts :: "NumberField option"
  st_isDefault :: "bool option"

definition stored :: "PrinterConfig \<Rightarrow> StoredConfig" where
  "stored c =
     \<lparr>st_id = cfg_id c, st_name = cfg_name c, st_type = cfg_type c,
      st_connectionType = connectionType c, st_connectionString = connectionString c,
      st_paperSize = paperSize c, st_characterSet = characterSet c,
      st_timeout = map_option (\<lambda>n. Number (Finite n)) (timeout c),
      st_retryAttempts = map_option (\<lambda>n. Number (Finite n)) (retryAttempts c),
      st_isDefault = isDefault c\<rparr>"

record ConfigManager =
  defaultConfigId :: "string option"
  configCache :: "(string \<times> StoredConfig) list"

text \<open>
  \<open>v && (v < lo || v > hi)\<close> for a number field: \<open>undefined\<close>, \<open>null\<close>, \<open>NaN\<close> and
  \<open>0\<close> are falsy; the infinities are truthy and outside every range.
\<close>

definition field_truthy_and_outside :: "NumberField option \<Rightarrow> int \<Rightarrow> int \<Rightarrow> bool" where
  "field_truthy_and_outside v lo hi =
     (case v of
        None \<Rightarrow> False
      | Some Null \<Rightarrow> False
      | Some (Number NaN) \<Rightarrow> False
      | Some (Number (Finite n)) \<Rightarrow> n \<noteq> 0 \<and> (n < lo \<or> n > hi)
      | Some (Number PosInfinity) \<Rightarrow> True
      | Some (Number NegInfinity) \<Rightarrow> True)"

definition ConfigManager_validateConfig :: "StoredConfig \<Rightarrow> bool" where
  "ConfigManager_validateConfig c =
     (if st_id c = [] \<or> st_name c = [] \<or> st_type c = [] \<or> st_connectionString c = []
        then False
      else if st_type c \<notin> set PrinterType_values then False
      else if st_connectionType c \<notin> set PrinterConnectionType_values then False
      else if st_paperSize c \<notin> set PaperSize_values then False
      else if field_truthy_and_outside (st_timeout c) 0 60000 then False
      else if field_truthy_and_outside (st_retryAttempts c) 0 10 then False
      else True)"

text \<open>
  The object that exportConfigs serialises and saveConfigurationsToFile writes:
  \<open>version\<close>, a date under the key \<open>exportDate\<close> or \<open>lastUpdated\<close>, \<open>defaultConfigId\<close>
  (\<open>null\<close> is \<open>None\<close>) and \<open>configurations\<close>.
\<close>

record ConfigDocument =
  doc_version :: string
  doc_date :: "string \<times> string"
  doc_defaultConfigId :: "string option"
  doc_configurations :: "StoredConfig list"

text \<open>
  A JSON text, given by the value it denotes. \<open>JSON.stringify\<close> writes an object's
  fields in turn and leaves out those that are \<open>undefined\<close>; it writes \<open>NaN\<close> and the
  infinities as \<open>null\<close>.
\<close>

datatype json =
    JNull
  | JBool bool
  | JNumber int
  | JString string
  | JArray "json list"
  | JObject "(string \<times> json) list"

definition json_of_number :: "NumberField \<Rightarrow> json" where
  "json_of_number v =
     (case v of
        Null \<Rightarrow> JNull
      | Number (Finite n) \<Rightarrow> JNumber n
      | Number NaN \<Rightarrow> JNull
      | Number PosInfinity \<Rightarrow> JNull
      | Number NegInfinity \<Rightarrow> JNull)"

definition json_of_config :: "StoredConfig \<Rightarrow> json" where
  "json_of_config c =
     JObject
       ([(''id'', JString (st_id c)), (''name'', JString (st_name c)),
         (''type'', JString (st_type c)), (''connectionType'', JString (st_connectionType c)),
         (''connectionString'', JString (st_connectionString c)),
         (''paperSize'', JString (st_paperSize c))]
        @ (case st_characterSet c of None \<Rightarrow> [] | Some s \<Rightarrow> [(''characterSet'', JString s)])
        @ (case st_timeout c of None \<Rightarrow> [] | Some v \<Rightarrow> [(''timeout'', json_of_number v)])
        @ (case st_retryAttempts c of None \<Rightarrow> [] | Some v \<Rightarrow> [(''retryAttempts'', json_of_number v)])
        @ (case st_isDefault c of None \<Rightarrow> [] | Some b \<Rightarrow> [(''isDefault'', JBool b)]))"

definition JSON_stringify :: "ConfigDocument \<Rightarrow> json" where
  "JSON_stringify doc =
     JObject
       [(''version'', JString (doc_version doc)),
        (fst (doc_date doc), JString (snd (doc_date doc))),
        (''defaultConfigId'',
           (case doc_defaultConfigId doc of None \<Rightarrow> JNull | Some d \<Rightarrow> JString d)),
        (''configurations'', JArray (map json_of_config (doc_configurations doc)))]"

text \<open>exportConfigs(); \<open>date\<close> is \<open>new Date().toISOString()\<close>.\<close>

definition exportConfigs :: "string \<Rightarrow> ConfigManager \<Rightarrow> json" where
  "exportConfigs date cm =
     JSON_stringify
       \<lparr>doc_version = ''1.0'', doc_date = (''exportDate'', date),
        doc_defaultConfigId = defaultConfigId cm,
        doc_configurations = map snd (configCache cm)\<rparr>"

text \<open>
  What \<open>JSON.parse(data)\<close> gives importConfigs: a syntax error, or an object of which
  the method reads \<open>defaultConfigId\<close> and \<open>configurations\<close> (\<open>None\<close> when it is
  missing or not an array).
\<close>

record ImportData =
  imp_defaultConfigId :: "string option"
  imp_configurations :: "StoredConfig list option"

datatype Parsed = SyntaxError string | ParsedObject ImportData

text \<open>
  \<open>JSON.parse\<close> of a JSON text, as importConfigs reads its result: the fields of each
  configuration by name (a string field that is absent is the empty string, as above).
  The result is \<open>None\<close> for a text that is no object, or in which a field has another
  type than the interface gives it: importConfigs on such data is outside this model.
\<close>

definition string_field :: "string \<Rightarrow> (string \<times> json) list \<Rightarrow> string option" where
  "string_field k fs =
     (case map_of fs k of None \<Rightarrow> Some [] | Some (JString s) \<Rightarrow> Some s | Some _ \<Rightarrow> None)"

definition optional_string_field :: "string \<Rightarrow> (string \<times> json) list \<Rightarrow> string option option" where
  "optional_string_field k fs =
     (case map_of fs k of None \<Rightarrow> Some None | Some (JString s) \<Rightarrow> Some (Some s)
      | Some _ \<Rightarrow> None)"

definition optional_null_string_field ::
  "string \<Rightarrow> (string \<times> json) list \<Rightarrow> string option option" where
  "optional_null_string_field k fs =
     (case map_of fs k of None \<Rightarrow> Some None | Some JNull \<Rightarrow> Some None
      | Some (JString s) \<Rightarrow> Some (Some s) | Some _ \<Rightarrow> None)"

definition optional_number_field ::
  "string \<Rightarrow> (string \<times> json) list \<Rightarrow> NumberField option option" where
  "optional_number_field k fs =
     (case map_of fs k of None \<Rightarrow> Some None | Some JNull \<Rightarrow> Some (Some Null)
      | Some (JNumber n) \<Rightarrow> Some (Some (Number (Finite n))) | Some _ \<Rightarrow> None)"

definition optional_bool_field :: "string \<Rightarrow> (string \<times> json) list \<Rightarrow> bool option option" where
  "optional_bool_field k fs =
     (case map_of fs k of None \<Rightarrow> Some None | Some (JBool b) \<Rightarrow> Some (Some b)
      | Some _ \<Rightarrow> None)"

definition config_of_json :: "json \<Rightarrow> StoredConfig option" where
  "config_of_json j =
     (case j of
        JObject fs \<Rightarrow>
          Option.bind (string_field ''id'' fs) (\<lambda>i.
          Option.bind (string_field ''name'' fs) (\<lambda>n.
          Option.bind (string_field ''type'' fs) (\<lambda>t.
          Option.bind (string_field ''connectionType'' fs) (\<lambda>ct.
          Option.bind (string_field ''connectionString'' fs) (\<lambda>cs.
          Option.bind (string_field ''paperSize'' fs) (\<lambda>ps.
          Option.bind (optional_string_field ''characterSet'' fs) (\<lambda>ch.
          Option.bind (optional_number_field ''timeout'' fs) (\<lambda>tm.
          Option.bind (optional_number_field ''retryAttempts'' fs) (\<lambda>ra.
          Option.bind (optional_bool_field ''isDefault'' fs) (\<lambda>d.
            Some \<lparr>st_id = i, st_name = n, st_type = t, st_connectionType = ct,
                  st_connectionString = cs, st_paperSize = ps, st_characterSet = ch,
                  st_timeout = tm, st_retryAttempts = ra, st_isDefault = d\<rparr>))))))))))
      | _ \<Rightarrow> None)"

fun configs_of_json :: "json list \<Rightarrow> StoredConfig list option" where
  "configs_of_json [] = Some []"
| "configs_of_json (j # js) =
     Option.bind (config_of_json j) (\<lambda>c.
     Option.bind (configs_of_json js) (\<lambda>cs. Some (c # cs)))"

definition JSON_parse :: "json \<Rightarrow> Parsed option" where
  "JSON_parse j =
     (case j of
        JObject fs \<Rightarrow>
          Option.bind (optional_null_string_field ''defaultConfigId'' fs) (\<lambda>d.
            (case map_of fs ''configurations'' of
               Some (JArray js) \<Rightarrow>
                 Option.bind (configs_of_json js) (\<lambda>cs.
                   Some (ParsedObject \<lparr>imp_defaultConfigId = d, imp_configurations = Some cs\<rparr>))
             | _ \<Rightarrow> Some (ParsedObject \<lparr>imp_defaultConfigId = d, imp_configurations = None\<rparr>)))
      | _ \<Rightarrow> None)"

text \<open>
  What a stored configuration has become when it is read back from its JSON text: a
  number field that held \<open>NaN\<close> or an infinity holds \<open>null\<close> (lemma
  \<open>config_of_json_of_config\<close>). \<open>json_carries\<close> says that a number field is read back
  as it was.
\<close>

definition read_back_number :: "NumberField \<Rightarrow> NumberField" where
  "read_back_number v = (case v of Number (Finite n) \<Rightarrow> Number (Finite n) | _ \<Rightarrow> Null)"

definition read_back :: "StoredConfig \<Rightarrow> StoredConfig" where
  "read_back c =
     c\<lparr>st_timeout := map_option read_back_number (st_timeout c),
       st_retryAttempts := map_option read_back_number (st_retryAttempts c)\<rparr>"

definition json_carries :: "NumberField option \<Rightarrow> bool" where
  "json_carries v =
     (case v of
        Some (Number NaN) \<Rightarrow> False
      | Some (Number PosInfinity) \<Rightarrow> False
      | Some (Number NegInfinity) \<Rightarrow> False
      | _ \<Rightarrow> True)"

text \<open>
  saveConfigurationsToFile: \<open>fs_writeFile\<close> is the file system, answering a write with
  an error message or with nothing.
\<close>

definition saveConfigurationsToFile ::
  "(json \<Rightarrow> string option) \<Rightarrow> string \<Rightarrow> (unit, ConfigManager) Task" where
  "saveConfigurationsToFile fs_writeFile date cm =
     (case fs_writeFile
             (JSON_stringify
                \<lparr>doc_version = ''1.0'', doc_date = (''lastUpdated'', date),
                 doc_defaultConfigId = defaultConfigId cm,
                 doc_configurations = map snd (configCache cm)\<rparr>) of
        None \<Rightarrow> (Inr (), cm)
      | Some m \<Rightarrow> (Inl (Error m), cm))"

text \<open>saveConfig: the body of its \<open>try\<close>, then the method with its \<open>catch\<close>.\<close>

definition saveConfig_try ::
  "(json \<Rightarrow> string option) \<Rightarrow> string \<Rightarrow> StoredConfig \<Rightarrow> (unit, ConfigManager) Task" where
  "saveConfig_try fs_writeFile date c cm =
     (if \<not> ConfigManager_validateConfig c then
        (Inl (PrinterError ''Invalid printer configuration'' INVALID_CONFIG (Some (st_id c)) None), cm)
      else
        (let cache = Map_set (st_id c) c (configCache cm);
             cm1 =
               (if st_isDefault c = Some True then
                  \<lparr>defaultConfigId = Some (st_id c),
                   configCache =
                     map (\<lambda>kv. if fst kv \<noteq> st_id c \<and> st_isDefault (snd kv) = Some True
                               then (fst kv, (snd kv)\<lparr>st_isDefault := Some False\<rparr>) else kv)
                       cache\<rparr>
                else \<lparr>defaultConfigId = defaultConfigId cm, configCache = cache\<rparr>)
         in saveConfigurationsToFile fs_writeFile date cm1))"

definition saveConfig ::
  "(json \<Rightarrow> string option) \<Rightarrow> string \<Rightarrow> StoredConfig \<Rightarrow> (unit, ConfigManager) Task" where
  "saveConfig fs_writeFile date c =
     catchT (saveConfig_try fs_writeFile date c)
       (\<lambda>e. throwT (PrinterError (''Failed to save printer configuration: '' @ message e)
                       INVALID_CONFIG (Some (st_id c)) (Some e)))"

fun first_invalid :: "StoredConfig list \<Rightarrow> StoredConfig option" where
  "first_invalid [] = None"
| "first_invalid (c # cs) = (if \<not> ConfigManager_validateConfig c then Some c else first_invalid cs)"

fun set_all :: "StoredConfig list \<Rightarrow> (string \<times> StoredConfig) list \<Rightarrow> (string \<times> StoredConfig) list" where
  "set_all [] m = m"
| "set_all (c # cs) m = set_all cs (Map_set (st_id c) c m)"

text \<open>importConfigs: the body of its \<open>try\<close>, then the method with its \<open>catch\<close>.\<close>

definition importConfigs_try ::
  "(json \<Rightarrow> string option) \<Rightarrow> string \<Rightarrow> Parsed \<Rightarrow> (unit, ConfigManager) Task" where
  "importConfigs_try fs_writeFile date parsed cm =
     (case parsed of
        SyntaxError m \<Rightarrow> (Inl (Error m), cm)
      | ParsedObject importData \<Rightarrow>
          (case imp_configurations importData of
             None \<Rightarrow> (Inl (Error ''Invalid import data format''), cm)
           | Some cs \<Rightarrow>
               (case first_invalid cs of
                  Some c \<Rightarrow>
                    (Inl (Error (''Invalid configuration: '' @ or_string (Some (st_id c)) ''unknown'')), cm)
                | None \<Rightarrow>
                    (let cache = set_all cs [];
                         cm1 =
                           (if (case imp_defaultConfigId importData of
                                  None \<Rightarrow> False
                                | Some d \<Rightarrow> d \<noteq> [] \<and> Map_has d cache)
                            then \<lparr>defaultConfigId = imp_defaultConfigId importData,
                                  configCache = cache\<rparr>
                            else if length cache > 0 then
                              (case cache of
                                 [] \<Rightarrow> \<lparr>defaultConfigId = defaultConfigId cm, configCache = cache\<rparr>
                               | (k, v) # rest \<Rightarrow>
                                   \<lparr>defaultConfigId = Some k,
                                    configCache = (k, v\<lparr>st_isDefault := Some True\<rparr>) # rest\<rparr>)
                            else \<lparr>defaultConfigId = defaultConfigId cm, configCache = cache\<rparr>)
                     in saveConfigurationsToFile fs_writeFile date cm1))))"

definition importConfigs ::
  "(json \<Rightarrow> string option) \<Rightarrow> string \<Rightarrow> Parsed \<Rightarrow> (unit, ConfigManager) Task" where
  "importConfigs fs_writeFile date parsed =
     catchT (importConfigs_try fs_writeFile date parsed)
       (\<lambda>e. throwT (PrinterError (''Failed to import configurations: '' @ message e)
                       INVALID_CONFIG None (Some e)))"

text \<open>
  \<open>importConfigs(await exportConfigs())\<close> on one manager: the text that exportConfigs
  returns at the time \<open>date\<close> is handed to importConfigs, which writes the file at the
  time \<open>date'\<close>.
\<close>

definition import_of_export ::
  "(json \<Rightarrow> string option) \<Rightarrow> string \<Rightarrow> string \<Rightarrow> ConfigManager
     \<Rightarrow> ((exn + unit) \<times> ConfigManager) option" where
  "import_of_export fs_writeFile date date' cm =
     map_option (\<lambda>parsed. importConfigs fs_writeFile date' parsed cm)
       (JSON_parse (exportConfigs date cm))"

section \<open>PrinterRegistry.ts: discovery\<close>

text \<open>String methods of JavaScript used by the discovery code.\<close>

definition to_lower :: "char \<Rightarrow> char" where
  "to_lower c =
     (let n = (of_char c :: nat) in
      if (65 \<le> n \<and> n \<le> 90) \<or> (192 \<le> n \<and> n \<le> 214) \<or> (216 \<le> n \<and> n \<le> 222)
      then char_of (n + 32) else c)"

definition toLowerCase :: "string \<Rightarrow> string" where
  "toLowerCase s = map to_lower s"

fun includes_str :: "string \<Rightarrow> string \<Rightarrow> bool" where
  "includes_str sub [] = (sub = [])"
| "includes_str sub (c # cs) = (starts_with sub (c # cs) \<or> includes_str sub cs)"

definition ends_with :: "string \<Rightarrow> string \<Rightarrow> bool" where
  "ends_with suf s = starts_with (rev suf) (rev s)"

definition trim :: "string \<Rightarrow> string" where
  "trim s = rev (dropWhile is_space (rev (dropWhile is_space s)))"

text \<open>\<open>s.replace(':', '')\<close>: the first occurrence only.\<close>

fun remove_first :: "char \<Rightarrow> string \<Rightarrow> string" where
  "remove_first x [] = []"
| "remove_first x (c # cs) = (if c = x then cs else c # remove_first x cs)"

text \<open>
  \<open>s.replace(/\s+/g, '_')\<close> and \<open>s.split(/\s+/)\<close>; the flag says that the previous
  character was white space.
\<close>

fun replace_ws :: "bool \<Rightarrow> string \<Rightarrow> string" where
  "replace_ws prev [] = []"
| "replace_ws prev (c # cs) =
     (if is_space c then (if prev then replace_ws True cs else CHR ''_'' # replace_ws True cs)
      else c # replace_ws False cs)"

fun split_ws :: "bool \<Rightarrow> string \<Rightarrow> string \<Rightarrow> string list" where
  "split_ws prev cur [] = [rev cur]"
| "split_ws prev cur (c # cs) =
     (if is_space c then (if prev then split_ws True cur cs else rev cur # split_ws True [] cs)
      else split_ws False (c # cur) cs)"

text \<open>\<open>/\d+\.\d+\.\d+\.\d+/.test(s)\<close>: a match may start anywhere.\<close>

definition ip_here :: "string \<Rightarrow> bool" where
  "ip_here s =
     (let d1 = takeWhile is_digit s; r1 = dropWhile is_digit s in
      d1 \<noteq> [] \<and> starts_with ''.'' r1 \<and>
      (let d2 = takeWhile is_digit (drop 1 r1); r2 = dropWhile is_digit (drop 1 r1) in
       d2 \<noteq> [] \<and> starts_with ''.'' r2 \<and>
       (let d3 = takeWhile is_digit (drop 1 r2); r3 = dropWhile is_digit (drop 1 r2) in
        d3 \<noteq> [] \<and> starts_with ''.'' r3 \<and> takeWhile is_digit (drop 1 r3) \<noteq> [])))"

fun ip_anywhere :: "string \<Rightarrow> bool" where
  "ip_anywhere [] = False"
| "ip_anywhere (c # cs) = (ip_here (c # cs) \<or> ip_anywhere cs)"

record PrinterDiscoveryResult =
  dr_id :: string
  dr_name :: string
  dr_type :: string
  dr_connectionType :: string
  dr_connectionString :: string
  dr_isAvailable :: bool

text \<open>
  The host: \<open>process.platform\<close>, \<open>execSync(command, {encoding: 'utf8'})\<close>, which
  returns the output or throws an error with a message and possibly \<open>stderr\<close>, and the
  socket of checkNetworkPrinter.
\<close>

datatype ExecError = ExecError string "string option"

datatype SocketOutcome = Connected | SocketError | NoAnswer | SocketThrows string

record Host =
  platform :: string
  execSync :: "string \<Rightarrow> ExecError + string"
  socket_connect :: "string \<Rightarrow> int \<Rightarrow> SocketOutcome"

definition guessePrinterType :: "string \<Rightarrow> string" where
  "guessePrinterType name =
     (let nameLower = toLowerCase name in
      if includes_str ''cbx'' nameLower \<or> includes_str ''89e'' nameLower then PrinterType_CBX_POS_89E
      else if includes_str ''epson'' nameLower then PrinterType_EPSON
      else if includes_str ''star'' nameLower then PrinterType_STAR
      else PrinterType_GENERIC_ESC_POS)"

definition guessConnectionType :: "string \<Rightarrow> string" where
  "guessConnectionType port =
     (let portLower = toLowerCase port in
      if includes_str ''usb'' portLower \<or> includes_str ''hid'' portLower then PrinterConnectionType_USB
      else if includes_str ''com'' portLower \<or> includes_str ''tty'' portLower
        then PrinterConnectionType_SERIAL
      else if includes_str ''ip'' portLower \<or> ip_anywhere port then PrinterConnectionType_NETWORK
      else PrinterConnectionType_USB)"

text \<open>isLikelyThermalPrinter(name, deviceInfo?): the second argument is never read.\<close>

definition isLikelyThermalPrinter :: "string \<Rightarrow> bool" where
  "isLikelyThermalPrinter name =
     (let nameLower = toLowerCase name in
      if includes_str ''cbx'' nameLower \<or> includes_str ''89e'' nameLower \<or> includes_str ''pos'' nameLower
      then True
      else list_ex (\<lambda>keyword. includes_str keyword nameLower)
             [''thermal'', ''receipt'', ''pos'', ''epson'', ''star'', ''citizen'', ''zebra'',
              ''esc/pos'', ''tm-'', ''tsp'', ''rp'', ''ct-'', ''zd'', ''gk'', ''gx''])"

definition usb_result :: "string \<Rightarrow> PrinterDiscoveryResult" where
  "usb_result name =
     \<lparr>dr_id = ''usb_'' @ replace_ws False name, dr_name = name,
      dr_type = guessePrinterType name, dr_connectionType = PrinterConnectionType_USB,
      dr_connectionString = name, dr_isAvailable = True\<rparr>"

text \<open>
  discoverUSBPrinters on macOS: the loop over the lines of system_profiler carries
  \<open>currentDevice\<close> and the results (\<open>deviceInfo\<close>, which nothing reads, is left out),
  and the last device is checked after it.
\<close>

fun usb_darwin_lines ::
  "string \<Rightarrow> PrinterDiscoveryResult list \<Rightarrow> string list \<Rightarrow> PrinterDiscoveryResult list" where
  "usb_darwin_lines currentDevice results [] =
     (if currentDevice \<noteq> [] \<and> isLikelyThermalPrinter currentDevice
      then results @ [usb_result currentDevice] else results)"
| "usb_darwin_lines currentDevice results (line # lines) =
     (let trimmed = trim line in
      if ends_with '':'' trimmed \<and> \<not> includes_str ''Product ID'' trimmed
         \<and> \<not> includes_str ''Vendor ID'' trimmed
      then usb_darwin_lines (remove_first CHR '':'' trimmed)
             (if currentDevice \<noteq> [] \<and> isLikelyThermalPrinter currentDevice
              then results @ [usb_result currentDevice] else results)
             lines
      else usb_darwin_lines currentDevice results lines)"

definition usb_win32_line :: "string \<Rightarrow> PrinterDiscoveryResult list" where
  "usb_win32_line line =
     (let trimmed = trim line in
      if trimmed \<noteq> [] \<and> \<not> starts_with ''Name'' trimmed \<and> \<not> starts_with ''----'' trimmed
         \<and> length trimmed > 0
      then
        (let parts = split_ws False [] trimmed;
             name = join '' '' (butlast parts)
         in if name \<noteq> [] \<and> isLikelyThermalPrinter name then [usb_result name] else [])
      else [])"

definition usb_linux_line :: "string \<Rightarrow> PrinterDiscoveryResult list" where
  "usb_linux_line line =
     (if isLikelyThermalPrinter line then
        (let parts = split CHR '' '' line;
             name = join '' '' (drop 6 parts)
         in if name \<noteq> [] then [usb_result name] else [])
      else [])"

text \<open>
  Each discovery method returns its results or throws; every one of them catches what
  the host's tools throw.
\<close>

definition powershell_command :: string where
  "powershell_command =
     ''powershell '' @ [CHR 0x22]
     @ ''Get-WmiObject -Class Win32_PnPEntity | Where-Object {$_.Name -like ''
     @ [CHR 0x27] @ ''*printer*'' @ [CHR 0x27] @ '' -or $_.Name -like ''
     @ [CHR 0x27] @ ''*CBX*'' @ [CHR 0x27] @ '' -or $_.Name -like ''
     @ [CHR 0x27] @ ''*POS*'' @ [CHR 0x27] @ ''} | Select-Object Name, DeviceID''
     @ [CHR 0x22]"

definition discoverUSBPrinters :: "Host \<Rightarrow> exn + PrinterDiscoveryResult list" where
  "discoverUSBPrinters h =
     (if platform h = ''darwin'' then
        (case execSync h ''system_profiler SPUSBDataType'' of
           Inl e \<Rightarrow> Inr []
         | Inr usbDevices \<Rightarrow> Inr (usb_darwin_lines [] [] (split CHR 0x0A usbDevices)))
      else if platform h = ''win32'' then
        (case execSync h powershell_command of
           Inl e \<Rightarrow> Inr []
         | Inr usbDevices \<Rightarrow> Inr (concat (map usb_win32_line (split CHR 0x0A usbDevices))))
      else
        (case execSync h ''lsusb'' of
           Inl e \<Rightarrow> Inr []
         | Inr usbDevices \<Rightarrow> Inr (concat (map usb_linux_line (split CHR 0x0A usbDevices)))))"

definition windows_printer_line :: "string \<Rightarrow> PrinterDiscoveryResult list" where
  "windows_printer_line line =
     (case split_ws False [] (trim line) of
        name # port # rest \<Rightarrow>
          [\<lparr>dr_id = ''discovered_'' @ replace_ws False name, dr_name = name,
            dr_type = guessePrinterType name, dr_connectionType = guessConnectionType port,
            dr_connectionString = name, dr_isAvailable = True\<rparr>]
      | _ \<Rightarrow> [])"

definition discoverWindowsPrinters :: "Host \<Rightarrow> exn + PrinterDiscoveryResult list" where
  "discoverWindowsPrinters h =
     (case execSync h ''wmic printer get name,portname'' of
        Inl e \<Rightarrow> Inr []
      | Inr output \<Rightarrow> Inr (concat (map windows_printer_line (drop 1 (split CHR 0x0A output)))))"

text \<open>
  A line of \<open>lpstat -p\<close> that starts with \<open>printer \<close> has a second word, its name
  (\<open>line.split(' ')[1]\<close>).
\<close>

definition lpstat_line :: "string \<Rightarrow> PrinterDiscoveryResult list" where
  "lpstat_line line =
     (if starts_with ''printer '' line then
        (case split CHR '' '' line of
           w # name # rest \<Rightarrow>
             [\<lparr>dr_id = ''discovered_'' @ name, dr_name = name,
               dr_type = guessePrinterType name,
               dr_connectionType = PrinterConnectionType_USB,
               dr_connectionString = name, dr_isAvailable = True\<rparr>]
         | _ \<Rightarrow> [])
      else [])"

definition discoverMacOSPrinters :: "Host \<Rightarrow> exn + PrinterDiscoveryResult list" where
  "discoverMacOSPrinters h =
     (case execSync h ''lpstat -p'' of
        Inl e \<Rightarrow> Inr []
      | Inr output \<Rightarrow> Inr (concat (map lpstat_line (split CHR 0x0A output))))"

definition discoverLinuxPrinters :: "Host \<Rightarrow> exn + PrinterDiscoveryResult list" where
  "discoverLinuxPrinters h =
     (case execSync h ''lpstat -p'' of
        Inl e \<Rightarrow> Inr []
      | Inr output \<Rightarrow> Inr (concat (map lpstat_line (split CHR 0x0A output))))"

text \<open>
  checkNetworkPrinter resolves \<open>true\<close> on a connection and \<open>false\<close> on a socket error or
  after one second without an answer; it rejects when the socket cannot be made.
\<close>

definition checkNetworkPrinter :: "Host \<Rightarrow> string \<Rightarrow> int \<Rightarrow> exn + bool" where
  "checkNetworkPrinter h ip port =
     (case socket_connect h ip port of
        Connected \<Rightarrow> Inr True
      | SocketError \<Rightarrow> Inr False
      | NoAnswer \<Rightarrow> Inr False
      | SocketThrows m \<Rightarrow> Inl (Error m))"

definition commonIPs :: "string list" where
  "commonIPs = [''192.168.1.100'', ''192.168.1.101'', ''192.168.0.100'', ''192.168.0.101'']"

definition network_result :: "string \<Rightarrow> PrinterDiscoveryResult" where
  "network_result ip =
     \<lparr>dr_id = ''network_'' @ map (\<lambda>c. if c = CHR ''.'' then CHR ''_'' else c) ip,
      dr_name = ''Network Printer ('' @ ip @ '')'',
      dr_type = PrinterType_GENERIC_ESC_POS,
      dr_connectionType = PrinterConnectionType_NETWORK,
      dr_connectionString = ip @ '':9100'',
      dr_isAvailable = True\<rparr>"

definition probe_ip :: "Host \<Rightarrow> string \<Rightarrow> PrinterDiscoveryResult list" where
  "probe_ip h ip =
     (case checkNetworkPrinter h ip 9100 of
        Inl e \<Rightarrow> []
      | Inr isAvailable \<Rightarrow> if isAvailable then [network_result ip] else [])"

definition discoverNetworkPrinters :: "Host \<Rightarrow> exn + PrinterDiscoveryResult list" where
  "discoverNetworkPrinters h = Inr (concat (map (probe_ip h) commonIPs))"

text \<open>
  discoverPrinters: \<open>results\<close> collects the three paths in turn inside one \<open>try\<close>; were
  a path to throw, the results collected before it would be returned.
\<close>

definition discoverPrinters :: "Host \<Rightarrow> exn + PrinterDiscoveryResult list" where
  "discoverPrinters h =
     (case discoverUSBPrinters h of
        Inl e \<Rightarrow> Inr []
      | Inr usb \<Rightarrow>
          (case (if platform h = ''win32'' then discoverWindowsPrinters h
                 else if platform h = ''darwin'' then discoverMacOSPrinters h
                 else discoverLinuxPrinters h) of
             Inl e \<Rightarrow> Inr usb
           | Inr os \<Rightarrow>
               (case discoverNetworkPrinters h of
                  Inl e \<Rightarrow> Inr (usb @ os)
                | Inr net \<Rightarrow> Inr (usb @ os @ net))))"

section \<open>PrinterService.ts\<close>

record 'p PrinterService =
  registry :: "'p PrinterRegistry"
  configManager :: ConfigManager
  initialized :: bool

definition ensureInitialized :: "'p PrinterService \<Rightarrow> exn + unit" where
  "ensureInitialized svc =
     (if \<not> initialized svc
      then Inl (PrinterError ''Printer service not initialized'' INVALID_CONFIG None None)
      else Inr ())"

definition testPrinter :: "'p IPrinter \<Rightarrow> string \<Rightarrow> (bool, 'p PrinterService) Task" where
  "testPrinter ops i svc =
     (case ensureInitialized svc of
        Inl e \<Rightarrow> (Inl e, svc)
      | Inr _ \<Rightarrow>
          (case validatePrinter ops i (registry svc) of
             (r, reg) \<Rightarrow> (r, svc\<lparr>registry := reg\<rparr>)))"

section \<open>utils.ts\<close>

text \<open>
  createCbxPos89eConfig(name, connectionString, options = {}). \<open>now\<close> is the value of
  \<open>Date.now()\<close> at the call.
\<close>

definition createCbxPos89eConfig ::
  "nat \<Rightarrow> string \<Rightarrow> string \<Rightarrow> PartialPrinterConfig \<Rightarrow> PrinterConfig" where
  "createCbxPos89eConfig now name connString options =
     spread
       \<lparr>cfg_id = or_string (opt_id options) (''cbx_'' @ string_of_nat now),
        cfg_name = name,
        cfg_type = PrinterType_CBX_POS_89E,
        connectionType = or_string (opt_connectionType options) PrinterConnectionType_USB,
        connectionString = connString,
        paperSize = or_string (opt_paperSize options) PaperSize_MM_80,
        characterSet = Some (or_string (opt_characterSet options) ''UTF-8''),
        timeout = Some (or_number (opt_timeout options) 3000),
        retryAttempts = Some (or_number (opt_retryAttempts options) 3),
        isDefault = Some (or_bool (opt_isDefault options) False)\<rparr>
       options"

section \<open>Example libraries, drivers and configurations\<close>

text \<open>
  A library whose every call succeeds (the printer answers, \<open>getWidth\<close> is 48), and
  one whose \<open>PosPrinter.print\<close> fails with a paper jam.
\<close>

definition ok_lib :: "unit Library" where
  "ok_lib =
     \<lparr>lib_new = (\<lambda>i. Inr ()),
      lib_void = (\<lambda>c d. (None, d)),
      lib_bool = (\<lambda>c d. (Inr True, d)),
      lib_number = (\<lambda>c d. (Inr 48, d))\<rparr>"

definition jam_lib :: "unit Library" where
  "jam_lib =
     \<lparr>lib_new = (\<lambda>i. Inr ()),
      lib_void = (\<lambda>c d. ((case c of PosPrinter_print x y \<Rightarrow> Some ''paper jam'' | _ \<Rightarrow> None), d)),
      lib_bool = (\<lambda>c d. (Inr True, d)),
      lib_number = (\<lambda>c d. (Inr 48, d))\<rparr>"

definition cfg1 :: PrinterConfig where
  "cfg1 =
     \<lparr>cfg_id = ''p1'', cfg_name = ''Front desk'', cfg_type = ''cbx_pos_89e'',
      connectionType = ''usb'', connectionString = ''CBX POS 89E Printer'',
      paperSize = ''80mm'', characterSet = Some ''UTF-8'', timeout = Some 3000,
      retryAttempts = Some 3, isDefault = Some True\<rparr>"

definition cfg2 :: PrinterConfig where
  "cfg2 =
     \<lparr>cfg_id = ''p2'', cfg_name = ''Kitchen'', cfg_type = ''generic_esc_pos'',
      connectionType = ''network'', connectionString = ''192.168.1.100:9100'',
      paperSize = ''58mm'', characterSet = None, timeout = None,
      retryAttempts = None, isDefault = None\<rparr>"

text \<open>The driver that the constructor builds for \<open>cfg1\<close>, and the same driver connected.\<close>

definition new_p1 :: "unit Printer" where
  "new_p1 =
     \<lparr>prn_id = ''p1'', config = cfg1, p_isConnected = False, p_status = OFFLINE,
      posPrinter = True, thermalPrinter = True, lastJobId = 0, emitted = [],
      world = \<lparr>lib_state = (), calls = []\<rparr>\<rparr>"

definition connected_p1 :: "unit Printer" where
  "connected_p1 =
     \<lparr>prn_id = ''p1'', config = cfg1, p_isConnected = True, p_status = IDLE,
      posPrinter = True, thermalPrinter = True, lastJobId = 0,
      emitted =
        [event ''status_changed'' ''p1'' (StatusData OFFLINE IDLE),
         event ''connection_restored'' ''p1'' NoData],
      world = \<lparr>lib_state = (), calls = [isPrinterConnected]\<rparr>\<rparr>"

text \<open>
  A driver whose self-test throws, a registry that holds the connected example driver,
  and a service on that registry, initialized or not.
\<close>

definition throwing_methods :: "unit Printer IPrinter" where
  "throwing_methods =
     \<lparr>i_isConnected = isConnected, i_dispose = dispose ok_lib,
      i_selfTest = throwT (Error ''self-test crashed'')\<rparr>"

definition registry_p1 :: "unit Printer PrinterRegistry" where
  "registry_p1 =
     \<lparr>printers = [(''p1'', connected_p1)], configs = [(''p1'', cfg1)],
      defaultPrinterId = Some ''p1'', factory = PrinterFactory_new ok_lib, reg_emitted = []\<rparr>"

definition service_p1 :: "bool \<Rightarrow> unit Printer PrinterService" where
  "service_p1 b =
     \<lparr>registry = registry_p1,
      configManager = \<lparr>defaultConfigId = Some ''p1'', configCache = [(''p1'', stored cfg1)]\<rparr>,
      initialized = b\<rparr>"



definition cfg_slow :: PrinterConfig where
  "cfg_slow = cfg1\<lparr>timeout := Some 70000\<rparr>"

text \<open>
  The second example configuration with the default flag set, and the empty registry on
  the factory of the library that always succeeds.
\<close>

definition cfg2_default :: PrinterConfig where
  "cfg2_default = cfg2\<lparr>isDefault := Some True\<rparr>"

definition empty_registry :: "unit Printer PrinterRegistry" where
  "empty_registry = PrinterRegistry_new (PrinterFactory_new ok_lib)"

definition registry_1 :: "unit Printer PrinterRegistry" where
  "registry_1 = snd (registerPrinter cfg1 empty_registry)"

definition registry_12 :: "unit Printer PrinterRegistry" where
  "registry_12 = snd (registerPrinter cfg2 registry_1)"

definition registry_12_default :: "unit Printer PrinterRegistry" where
  "registry_12_default = snd (registerPrinter cfg2_default registry_1)"

definition new_p2 :: "unit Printer" where
  "new_p2 =
     \<lparr>prn_id = ''p2'', config = cfg2, p_isConnected = False, p_status = OFFLINE,
      posPrinter = True, thermalPrinter = True, lastJobId = 0, emitted = [],
      world = \<lparr>lib_state = (), calls = []\<rparr>\<rparr>"

definition new_p2_default :: "unit Printer" where
  "new_p2_default = new_p2\<lparr>config := cfg2_default\<rparr>"

text \<open>
  A file system that accepts every write; the store of a new manager, the store after
  \<open>saveConfig(cfg2)\<close> on it (no default: \<open>cfg2\<close> does not set the flag), and the store
  after \<open>saveConfig(cfg1)\<close> and \<open>saveConfig(cfg2)\<close>.
\<close>

definition fs_ok :: "json \<Rightarrow> string option" where
  "fs_ok text = None"

definition store_new :: ConfigManager where
  "store_new = \<lparr>defaultConfigId = None, configCache = []\<rparr>"

definition store_2 :: ConfigManager where
  "store_2 = \<lparr>defaultConfigId = None, configCache = [(''p2'', stored cfg2)]\<rparr>"

definition store_12 :: ConfigManager where
  "store_12 =
     \<lparr>defaultConfigId = Some ''p1'',
      configCache = [(''p1'', stored cfg1), (''p2'', stored cfg2)]\<rparr>"

text \<open>
  \<open>cfg1\<close> with the timeout \<open>NaN\<close>, which validateConfig lets pass, and the store after
  \<open>saveConfig\<close> of it on a new manager; a store without default that holds \<open>cfg_slow\<close>,
  whose timeout is above the range (loadConfigurationsFromFile puts what the file holds
  into the store without validating it).
\<close>

definition cfg_nan :: StoredConfig where
  "cfg_nan = (stored cfg1)\<lparr>st_timeout := Some (Number NaN)\<rparr>"

definition store_nan :: ConfigManager where
  "store_nan = \<lparr>defaultConfigId = Some ''p1'', configCache = [(''p1'', cfg_nan)]\<rparr>"

definition store_slow :: ConfigManager where
  "store_slow = \<lparr>defaultConfigId = None, configCache = [(''p1'', stored cfg_slow)]\<rparr>"

text \<open>
  The command that discoverUSBPrinters, and the discovery method of the platform, pass
  to \<open>execSync\<close>.
\<close>

definition usb_tool :: "string \<Rightarrow> string" where
  "usb_tool p =
     (if p = ''darwin'' then ''system_profiler SPUSBDataType''
      else if p = ''win32'' then powershell_command
      else ''lsusb'')"

definition os_tool :: "string \<Rightarrow> string" where
  "os_tool p = (if p = ''win32'' then ''wmic printer get name,portname'' else ''lpstat -p'')"

text \<open>
  A host on which no tool runs and no address answers, and a Linux host where
  \<open>lsusb\<close> lists a receipt printer, \<open>lpstat\<close> is missing, the first address accepts
  a connection and the socket for the second cannot be made.
\<close>

definition dead_host :: "string \<Rightarrow> Host" where
  "dead_host p =
     \<lparr>platform = p,
      execSync = (\<lambda>cmd. Inl (ExecError ''command not found'' None)),
      socket_connect = (\<lambda>ip port. NoAnswer)\<rparr>"

definition linux_host :: Host where
  "linux_host =
     \<lparr>platform = ''linux'',
      execSync =
        (\<lambda>cmd. if cmd = ''lsusb''
               then Inr (''Bus 001 Device 001: ID 1d6b:0002 Linux Foundation 2.0 root hub'' @ [CHR 0x0A]
                         @ ''Bus 001 Device 004: ID 0416:5011 Winbond POS Printer'' @ [CHR 0x0A])
               else Inl (ExecError ''lpstat: not found'' (Some ''sh: 1: lpstat: not found''))),
      socket_connect =
        (\<lambda>ip port. if ip = ''192.168.1.100'' \<and> port = 9100 then Connected
                    else if ip = ''192.168.1.101'' then SocketThrows ''EMFILE''
                    else SocketError)\<rparr>"

section \<open>Properties\<close>

lemmas enum_defs =
  PrinterConnectionType_USB_def PrinterConnectionType_SERIAL_def
  PrinterConnectionType_NETWORK_def PrinterConnectionType_BLUETOOTH_def
  PrinterConnectionType_values_def
  PaperSize_MM_80_def PaperSize_MM_78_def PaperSize_MM_76_def
  PaperSize_MM_58_def PaperSize_MM_57_def PaperSize_MM_44_def PaperSize_values_def
  PrinterType_CBX_POS_89E_def PrinterType_EPSON_def PrinterType_STAR_def
  PrinterType_GENERIC_ESC_POS_def PrinterType_values_def


subsection \<open>The example driver is the one the code builds\<close>


lemma connected_p1_reached: "connect ok_lib new_p1 = (Inr (), connected_p1)"
  by (simp add: connect_def connect_try_def catchT_def setStatus_def emitEvent_def inWorld_def
      call_bool_def ok_lib_def new_p1_def connected_p1_def)

subsection \<open>The driver: print\<close>

text \<open>
  C1. For every connected driver, a print(content, jobConfig) call whose translation and
  execution succeed (\<open>print_job\<close> returns) returns the job id, leaves the status Idle
  after passing through Printing (a \<open>status_changed\<close> to Printing unless the status was
  Printing already, then one from Printing to Idle), and emits among its events exactly
  one \<open>job_started\<close> followed by exactly one \<open>job_completed\<close>, both with the job id it
  returns.
\<close>

theorem C1_print_success:
  assumes "isConnected p"
    and "print_job lib (prn_id p) (config p) (posPrinter p) (thermalPrinter p)
           content job (world p) = (Inr (), w)"
  shows "print lib now content job p =
           (Inr (jobId_of (prn_id p) (lastJobId p + 1) now),
            p\<lparr>lastJobId := lastJobId p + 1, p_status := IDLE, world := w,
              emitted := emitted p
                @ (if p_status p \<noteq> PRINTING
                   then [event ''status_changed'' (prn_id p) (StatusData (p_status p) PRINTING)]
                   else [])
                @ [event ''job_started'' (prn_id p)
                     (JobData (jobId_of (prn_id p) (lastJobId p + 1) now)),
                   event ''status_changed'' (prn_id p) (StatusData PRINTING IDLE),
                   event ''job_completed'' (prn_id p)
                     (JobData (jobId_of (prn_id p) (lastJobId p + 1) now))]\<rparr>)
         \<and> p_status (snd (print lib now content job p)) = IDLE
         \<and> job_events (drop (length (emitted p)) (emitted (snd (print lib now content job p)))) =
             [event ''job_started'' (prn_id p)
                (JobData (jobId_of (prn_id p) (lastJobId p + 1) now)),
              event ''job_completed'' (prn_id p)
                (JobData (jobId_of (prn_id p) (lastJobId p + 1) now))]"
  using assms
  by (simp add: print_def Let_def isConnected_def inWorld_def setStatus_def emitEvent_def
      job_events_def event_def)

theorem C1_witness:
  "isConnected connected_p1
   \<and> print_job ok_lib ''p1'' cfg1 True True [PrintText ''hi'' None, PrintFeed 2] default_job
        \<lparr>lib_state = (), calls = [isPrinterConnected]\<rparr>
      = (Inr (),
         \<lparr>lib_state = (),
          calls =
            [isPrinterConnected,
             PosPrinter_print
               [PosText ''hi''
                  [(''fontWeight'', ''normal''), (''textDecoration'', ''none''),
                   (''fontStyle'', ''normal''), (''textAlign'', ''left''),
                   (''fontSize'', ''12px'')]
                  (Some ''text-align: left; font-size: 12px''),
                PosText '' '' [(''fontSize'', ''1px'')] None,
                PosText '' '' [(''fontSize'', ''1px'')] None]
               \<lparr>preview = False, margin = ''0 0 0 0'', copies = 1,
                printerName = ''CBX POS 89E Printer'', timeOutPerLine = 3000, silent = True\<rparr>,
             cut, execute]\<rparr>)
   \<and> fst (print ok_lib 42 [PrintText ''hi'' None, PrintFeed 2] default_job connected_p1)
       = Inr ''cbx_p1_1_42''
   \<and> p_status (snd (print ok_lib 42 [PrintText ''hi'' None, PrintFeed 2] default_job connected_p1))
       = IDLE
   \<and> drop 2 (emitted (snd (print ok_lib 42 [PrintText ''hi'' None, PrintFeed 2] default_job
                             connected_p1)))
       = [event ''status_changed'' ''p1'' (StatusData IDLE PRINTING),
          event ''job_started'' ''p1'' (JobData ''cbx_p1_1_42''),
          event ''status_changed'' ''p1'' (StatusData PRINTING IDLE),
          event ''job_completed'' ''p1'' (JobData ''cbx_p1_1_42'')]"
proof -
  have c: "isConnected connected_p1"
    by (simp add: isConnected_def connected_p1_def)
  have j: "print_job ok_lib (prn_id connected_p1) (config connected_p1) (posPrinter connected_p1)
             (thermalPrinter connected_p1) [PrintText ''hi'' None, PrintFeed 2] default_job
             (world connected_p1)
           = (Inr (),
              \<lparr>lib_state = (),
               calls =
                 [isPrinterConnected,
                  PosPrinter_print
                    [PosText ''hi''
                       [(''fontWeight'', ''normal''), (''textDecoration'', ''none''),
                        (''fontStyle'', ''normal''), (''textAlign'', ''left''),
                        (''fontSize'', ''12px'')]
                       (Some ''text-align: left; font-size: 12px''),
                     PosText '' '' [(''fontSize'', ''1px'')] None,
                     PosText '' '' [(''fontSize'', ''1px'')] None]
                    \<lparr>preview = False, margin = ''0 0 0 0'', copies = 1,
                     printerName = ''CBX POS 89E Printer'', timeOutPerLine = 3000,
                     silent = True\<rparr>,
                  cut, execute]\<rparr>)"
    by (simp add: print_job_def printWithPosPrinter_def cutPaper_task_def bindT_def catchT_def
        returnT_def throwT_def call_void_def call_bool_def convertTextStyle_def
        convertTextCSS_def convertAlignment_def convertFontSize_def format_or_empty_def
        no_format_def or_number_def default_job_def connected_p1_def cfg1_def ok_lib_def
        numeral_2_eq_2)
  show ?thesis
    using c j C1_print_success [OF c j, of 42]
    by (simp add: connected_p1_def cfg1_def jobId_of_def string_of_nat.simps)
qed

text \<open>
  C2 (amended). For every driver with isConnected() false, print(content, jobConfig)
  raises a PrinterError with code PRINTER_OFFLINE and does nothing else but advance the
  job counter: no connect, no translation, no call of a printing library, no event, and
  connection flag and status as before. The job id is made, and \<open>lastJobId\<close> incremented,
  before the connection is tested.
\<close>

theorem C2_print_offline:
  assumes "\<not> isConnected p"
  shows "print lib now content job p =
           (Inl (PrinterError ''Printer not connected'' PRINTER_OFFLINE (Some (prn_id p)) None),
            p\<lparr>lastJobId := lastJobId p + 1\<rparr>)"
  using assms by (simp add: print_def Let_def isConnected_def)

theorem C2_witness:
  "\<not> isConnected new_p1
   \<and> print ok_lib 42 [PrintText ''hi'' None] default_job new_p1 =
       (Inl (PrinterError ''Printer not connected'' PRINTER_OFFLINE (Some ''p1'') None),
        new_p1\<lparr>lastJobId := 1\<rparr>)"
proof -
  have c: "\<not> isConnected new_p1"
    by (simp add: isConnected_def new_p1_def)
  show ?thesis
    using c C2_print_offline [OF c, of ok_lib 42 "[PrintText ''hi'' None]" default_job]
    by (simp add: new_p1_def)
qed

text \<open>
  The claim as stated fails: the rejected call changes the driver's job counter.
\<close>

theorem C2_counterexample:
  "\<not> isConnected new_p1
   \<and> lastJobId new_p1 = 0
   \<and> lastJobId (snd (print ok_lib 42 [PrintText ''hi'' None] default_job new_p1)) = 1"
  by (simp add: print_def Let_def isConnected_def new_p1_def)

lemma translation_failure_example:
  "print_job ok_lib ''p1'' cfg1 True True [PrintLine None (Some (- 3))] default_job w
     = (Inl (Error ''Invalid count value: -3''), w)"
  by (simp add: print_job_def printWithPosPrinter_def bindT_def throwT_def repeat_def
      or_number_def or_string_def string_of_int_def string_of_nat.simps)

text \<open>
  C3. For every connected driver, if translation or execution inside print() raises
  (\<open>print_job\<close> throws \<open>e\<close>), the driver goes to status Error, emits \<open>job_failed\<close> with
  the job id and the error text, stays connected with its status not Idle, and raises a
  PrinterError (COMMAND_ERROR) that wraps \<open>e\<close>.
\<close>

theorem C3_print_failure:
  assumes "isConnected p"
    and "print_job lib (prn_id p) (config p) (posPrinter p) (thermalPrinter p)
           content job (world p) = (Inl e, w)"
  shows "print lib now content job p =
           (Inl (PrinterError (''Print job failed: '' @ message e) COMMAND_ERROR
                   (Some (prn_id p)) (Some e)),
            p\<lparr>lastJobId := lastJobId p + 1, p_status := ERROR, world := w,
              emitted := emitted p
                @ (if p_status p \<noteq> PRINTING
                   then [event ''status_changed'' (prn_id p) (StatusData (p_status p) PRINTING)]
                   else [])
                @ [event ''job_started'' (prn_id p)
                     (JobData (jobId_of (prn_id p) (lastJobId p + 1) now)),
                   event ''status_changed'' (prn_id p) (StatusData PRINTING ERROR),
                   event ''job_failed'' (prn_id p)
                     (JobFailedData (jobId_of (prn_id p) (lastJobId p + 1) now) (message e))]\<rparr>)
         \<and> isConnected (snd (print lib now content job p))
         \<and> p_status (snd (print lib now content job p)) = ERROR
         \<and> p_status (snd (print lib now content job p)) \<noteq> IDLE"
  using assms
  by (simp add: print_def Let_def isConnected_def inWorld_def setStatus_def emitEvent_def)

theorem C3_witness:
  "isConnected connected_p1
   \<and> print_job jam_lib ''p1'' cfg1 True True [PrintText ''hi'' None] default_job
        \<lparr>lib_state = (), calls = [isPrinterConnected]\<rparr>
      = (Inl (Error ''paper jam''),
         \<lparr>lib_state = (),
          calls =
            [isPrinterConnected,
             PosPrinter_print
               [PosText ''hi''
                  [(''fontWeight'', ''normal''), (''textDecoration'', ''none''),
                   (''fontStyle'', ''normal''), (''textAlign'', ''left''),
                   (''fontSize'', ''12px'')]
                  (Some ''text-align: left; font-size: 12px'')]
               \<lparr>preview = False, margin = ''0 0 0 0'', copies = 1,
                printerName = ''CBX POS 89E Printer'', timeOutPerLine = 3000,
                silent = True\<rparr>]\<rparr>)
   \<and> fst (print jam_lib 42 [PrintText ''hi'' None] default_job connected_p1)
       = Inl (PrinterError ''Print job failed: paper jam'' COMMAND_ERROR (Some ''p1'')
                (Some (Error ''paper jam'')))
   \<and> isConnected (snd (print jam_lib 42 [PrintText ''hi'' None] default_job connected_p1))
   \<and> p_status (snd (print jam_lib 42 [PrintText ''hi'' None] default_job connected_p1)) = ERROR
   \<and> drop 2 (emitted (snd (print jam_lib 42 [PrintText ''hi'' None] default_job connected_p1)))
       = [event ''status_changed'' ''p1'' (StatusData IDLE PRINTING),
          event ''job_started'' ''p1'' (JobData ''cbx_p1_1_42''),
          event ''status_changed'' ''p1'' (StatusData PRINTING ERROR),
          event ''job_failed'' ''p1'' (JobFailedData ''cbx_p1_1_42'' ''paper jam'')]"
proof -
  have c: "isConnected connected_p1"
    by (simp add: isConnected_def connected_p1_def)
  have j: "print_job jam_lib (prn_id connected_p1) (config connected_p1) (posPrinter connected_p1)
             (thermalPrinter connected_p1) [PrintText ''hi'' None] default_job
             (world connected_p1)
           = (Inl (Error ''paper jam''),
              \<lparr>lib_state = (),
               calls =
                 [isPrinterConnected,
                  PosPrinter_print
                    [PosText ''hi''
                       [(''fontWeight'', ''normal''), (''textDecoration'', ''none''),
                        (''fontStyle'', ''normal''), (''textAlign'', ''left''),
                        (''fontSize'', ''12px'')]
                       (Some ''text-align: left; font-size: 12px'')]
                    \<lparr>preview = False, margin = ''0 0 0 0'', copies = 1,
                     printerName = ''CBX POS 89E Printer'', timeOutPerLine = 3000,
                     silent = True\<rparr>]\<rparr>)"
    by (simp add: print_job_def printWithPosPrinter_def bindT_def catchT_def
        returnT_def throwT_def call_void_def call_bool_def convertTextStyle_def
        convertTextCSS_def convertAlignment_def convertFontSize_def format_or_empty_def
        no_format_def or_number_def default_job_def connected_p1_def cfg1_def jam_lib_def)
  show ?thesis
    using c j C3_print_failure [OF c j, of 42]
    by (simp add: connected_p1_def cfg1_def jobId_of_def string_of_nat.simps isConnected_def)
qed

subsection \<open>The driver: connect and disconnect\<close>

text \<open>
  C6 (amended). connect() and disconnect() do not test the connection flag. On a driver
  that is already connected, connect() probes the printer again
  (\<open>isPrinterConnected\<close>); when the printer answers, the driver stays connected with
  status Idle and \<open>connection_restored\<close> is emitted once more. On a driver that is
  already offline, disconnect() clears the library's buffer and emits
  \<open>connection_lost\<close>; connection flag and status stay as they were and no
  \<open>status_changed\<close> is emitted.
\<close>

theorem C6_connect_disconnect_repeated:
  "(isConnected p \<and> thermalPrinter p
      \<and> lib_bool lib isPrinterConnected (lib_state (world p)) = (Inr True, d)
    \<longrightarrow> connect lib p =
          (Inr (),
           p\<lparr>p_status := IDLE,
              world := \<lparr>lib_state = d, calls = calls (world p) @ [isPrinterConnected]\<rparr>,
              emitted := emitted p
                @ (if p_status p \<noteq> IDLE
                   then [event ''status_changed'' (prn_id p) (StatusData (p_status p) IDLE)]
                   else [])
                @ [event ''connection_restored'' (prn_id p) NoData]\<rparr>))
   \<and> (\<not> isConnected p \<and> p_status p = OFFLINE \<and> thermalPrinter p
      \<and> lib_void lib clear (lib_state (world p)) = (None, d')
    \<longrightarrow> disconnect lib p =
          (Inr (),
           p\<lparr>world := \<lparr>lib_state = d', calls = calls (world p) @ [clear]\<rparr>,
              emitted := emitted p @ [event ''connection_lost'' (prn_id p) NoData]\<rparr>))"
  by (auto simp add: connect_def connect_try_def disconnect_def disconnect_try_def catchT_def
      isConnected_def inWorld_def call_bool_def call_void_def setStatus_def emitEvent_def)

theorem C6_witness:
  "(isConnected connected_p1 \<and> thermalPrinter connected_p1
      \<and> lib_bool ok_lib isPrinterConnected (lib_state (world connected_p1)) = (Inr True, ()))
   \<and> connect ok_lib connected_p1 =
        (Inr (),
         connected_p1\<lparr>
           world := \<lparr>lib_state = (), calls = [isPrinterConnected, isPrinterConnected]\<rparr>,
           emitted := emitted connected_p1 @ [event ''connection_restored'' ''p1'' NoData]\<rparr>)
   \<and> (\<not> isConnected new_p1 \<and> p_status new_p1 = OFFLINE \<and> thermalPrinter new_p1
      \<and> lib_void ok_lib clear (lib_state (world new_p1)) = (None, ()))
   \<and> disconnect ok_lib new_p1 =
        (Inr (),
         new_p1\<lparr>world := \<lparr>lib_state = (), calls = [clear]\<rparr>,
                emitted := [event ''connection_lost'' ''p1'' NoData]\<rparr>)"
  using C6_connect_disconnect_repeated [of connected_p1 ok_lib "()" "()"]
    C6_connect_disconnect_repeated [of new_p1 ok_lib "()" "()"]
  by (simp add: isConnected_def connected_p1_def new_p1_def ok_lib_def)

text \<open>
  The claim as stated fails: connect() on the connected driver calls the library again,
  and disconnect() on the offline driver emits an event.
\<close>

theorem C6_counterexample:
  "isConnected connected_p1
   \<and> calls (world connected_p1) = [isPrinterConnected]
   \<and> calls (world (snd (connect ok_lib connected_p1))) = [isPrinterConnected, isPrinterConnected]
   \<and> \<not> isConnected new_p1
   \<and> emitted new_p1 = []
   \<and> emitted (snd (disconnect ok_lib new_p1)) = [event ''connection_lost'' ''p1'' NoData]"
  by (simp add: connect_def connect_try_def disconnect_def disconnect_try_def catchT_def
      isConnected_def inWorld_def call_bool_def call_void_def setStatus_def emitEvent_def
      connected_p1_def new_p1_def ok_lib_def)

subsection \<open>The configuration helper\<close>

text \<open>
  C9. For every name and connection string, createCbxPos89eConfig(name, connectionString)
  called without options returns a configuration of type cbx_pos_89e with connection
  type USB, paper size 80mm, character set UTF-8, timeout 3000, 3 retry attempts and
  isDefault false, carrying the given name and connection string (and the identifier
  cbx_ followed by the current time).
\<close>

theorem C9_createCbxPos89eConfig_defaults:
  "createCbxPos89eConfig now name connString no_options =
     \<lparr>cfg_id = ''cbx_'' @ string_of_nat now,
      cfg_name = name,
      cfg_type = ''cbx_pos_89e'',
      connectionType = ''usb'',
      connectionString = connString,
      paperSize = ''80mm'',
      characterSet = Some ''UTF-8'',
      timeout = Some 3000,
      retryAttempts = Some 3,
      isDefault = Some False\<rparr>"
  by (simp add: createCbxPos89eConfig_def spread_def no_options_def or_string_def
      or_number_def or_bool_def enum_defs)

theorem C9_witness:
  "createCbxPos89eConfig 42 ''Default Printer'' ''CBX POS 89E Printer'' no_options =
     \<lparr>cfg_id = ''cbx_42'',
      cfg_name = ''Default Printer'',
      cfg_type = ''cbx_pos_89e'',
      connectionType = ''usb'',
      connectionString = ''CBX POS 89E Printer'',
      paperSize = ''80mm'',
      characterSet = Some ''UTF-8'',
      timeout = Some 3000,
      retryAttempts = Some 3,
      isDefault = Some False\<rparr>"
  using C9_createCbxPos89eConfig_defaults [of 42 "''Default Printer''" "''CBX POS 89E Printer''"]
  by (simp add: string_of_nat.simps)

subsection \<open>The registry and the service: validatePrinter and testPrinter\<close>

lemma selfTest_never_raises: "\<exists>ok p'. selfTest lib now p = (Inr ok, p')"
  by (cases "selfTest_try lib now p"; cases "fst (selfTest_try lib now p)")
     (auto simp add: selfTest_def catchT_def returnT_def)

text \<open>
  C10 (amended). validatePrinter(id) on the registry never raises: it returns false for
  an identifier that is not registered, and false when the driver's selfTest() throws.
  The service's testPrinter(id) never raises once the service is initialized; on a
  service that is not initialized it raises the PrinterError of ensureInitialized
  (INVALID_CONFIG, ``Printer service not initialized'') and leaves the service as it was.
\<close>

theorem C10_validatePrinter_never_raises:
  "(\<exists>ok reg'. validatePrinter ops i reg = (Inr ok, reg'))
   \<and> (Map_get i (printers reg) = None \<longrightarrow> validatePrinter ops i reg = (Inr False, reg))
   \<and> (\<forall>printer e printer'.
         Map_get i (printers reg) = Some printer \<and> i_selfTest ops printer = (Inl e, printer')
         \<longrightarrow> fst (validatePrinter ops i reg) = Inr False)
   \<and> (initialized svc \<longrightarrow> (\<exists>ok svc'. testPrinter ops i svc = (Inr ok, svc')))
   \<and> (\<not> initialized svc \<longrightarrow>
        testPrinter ops i svc =
          (Inl (PrinterError ''Printer service not initialized'' INVALID_CONFIG None None), svc))"
proof -
  have v: "\<exists>ok reg'. validatePrinter ops j r = (Inr ok, reg')" for j and r :: "'a PrinterRegistry"
    by (auto simp add: validatePrinter_def split: option.splits prod.splits sum.splits)
  have t: "initialized svc \<Longrightarrow> \<exists>ok svc'. testPrinter ops i svc = (Inr ok, svc')"
    using v [of i "registry svc"]
    by (auto simp add: testPrinter_def ensureInitialized_def)
  show ?thesis
    using v [of i reg] t
    by (auto simp add: validatePrinter_def testPrinter_def ensureInitialized_def)
qed

theorem C10_witness:
  "validatePrinter throwing_methods ''nonexistent-printer'' registry_p1 = (Inr False, registry_p1)
   \<and> Map_get ''nonexistent-printer'' (printers registry_p1) = None
   \<and> Map_get ''p1'' (printers registry_p1) = Some connected_p1
   \<and> i_selfTest throwing_methods connected_p1 = (Inl (Error ''self-test crashed''), connected_p1)
   \<and> fst (validatePrinter throwing_methods ''p1'' registry_p1) = Inr False
   \<and> initialized (service_p1 True)
   \<and> (\<exists>ok svc'. testPrinter throwing_methods ''p1'' (service_p1 True) = (Inr ok, svc'))
   \<and> \<not> initialized (service_p1 False)
   \<and> fst (testPrinter throwing_methods ''p1'' (service_p1 False)) =
       Inl (PrinterError ''Printer service not initialized'' INVALID_CONFIG None None)"
  using C10_validatePrinter_never_raises
          [of throwing_methods "''nonexistent-printer''" registry_p1 "service_p1 True"]
        C10_validatePrinter_never_raises
          [of throwing_methods "''p1''" registry_p1 "service_p1 True"]
        C10_validatePrinter_never_raises
          [of throwing_methods "''p1''" registry_p1 "service_p1 False"]
  by (simp add: registry_p1_def service_p1_def Map_get_def throwing_methods_def throwT_def)

text \<open>
  The claim as stated fails: testPrinter on a service that was never initialized raises.
\<close>

theorem C10_counterexample:
  "testPrinter (CbxPos89ePrinter_methods ok_lib 42) ''p1'' (service_p1 False) =
     (Inl (PrinterError ''Printer service not initialized'' INVALID_CONFIG None None),
      service_p1 False)"
  by (simp add: testPrinter_def ensureInitialized_def service_p1_def)

subsection \<open>The factory\<close>

lemma default_factory_maps:
  "printerRegistry (PrinterFactory_new lib) =
     [(''cbx_pos_89e'', CbxPos89ePrinter_new lib), (''generic_esc_pos'', CbxPos89ePrinter_new lib)]"
  "configValidators (PrinterFactory_new lib) =
     [(''cbx_pos_89e'', validateCbxPos89eConfig), (''generic_esc_pos'', validateGenericEscPosConfig)]"
  by (simp_all add: PrinterFactory_new_def registerPrinterType_def enum_defs)

lemma basic_valid_type:
  "validateBasicConfig c \<Longrightarrow>
     cfg_type c \<in> {''cbx_pos_89e'', ''epson'', ''star'', ''generic_esc_pos''}"
  by (auto simp add: validateBasicConfig_def enum_defs split: if_splits)




lemma cfg1_valid: "validateConfig (PrinterFactory_new ok_lib) cfg1"
  by (simp add: validateConfig_def validateBasicConfig_def truthy_and_outside_def
      default_factory_maps Map_get_def validateCbxPos89eConfig_def validateUSBConnection_def
      cfg1_def enum_defs)




subsection \<open>The registry: the default printer\<close>

lemma registerPrinter_success:
  assumes "registerPrinter c reg = (Inr i, reg')"
  shows "validateConfig (factory reg) c \<and> \<not> Map_has (cfg_id c) (printers reg) \<and> i = cfg_id c
         \<and> (\<exists>p. createPrinter (factory reg) c = Inr p
                \<and> reg' =
                    reg_emit ''printer_registered'' (cfg_id c) (Some c)
                      (reg\<lparr>printers := Map_set (cfg_id c) p (printers reg),
                           configs := Map_set (cfg_id c) c (configs reg),
                           defaultPrinterId :=
                             (if isDefault c = Some True
                                 \<or> length (Map_set (cfg_id c) p (printers reg)) = 1
                              then Some (cfg_id c) else defaultPrinterId reg)\<rparr>))"
  using assms
  by (auto simp add: registerPrinter_def registerPrinter_try_def catchT_def throwT_def Let_def
      split: if_splits sum.splits)

lemma createPrinter_default_success:
  assumes "createPrinter (PrinterFactory_new lib) c = Inr p"
  shows "CbxPos89ePrinter_new lib (cfg_id c) c = Inr p"
  using assms
  by (auto simp add: createPrinter_def default_factory_maps Map_get_def
      split: if_splits sum.splits)

lemma new_printer_offline:
  assumes "CbxPos89ePrinter_new lib i c = Inr p"
  shows "\<not> p_isConnected p \<and> prn_id p = i"
  using assms by (auto simp add: CbxPos89ePrinter_new_def split: sum.splits)

lemma valid_id_nonempty: "validateConfig fac c \<Longrightarrow> cfg_id c \<noteq> []"
  by (auto simp add: validateConfig_def validateBasicConfig_def split: if_splits)

text \<open>
  C5 (amended). In an empty registry (on the factory of \<open>new PrinterFactory()\<close>) where
  P1 is registered first with the default flag set and P2 is registered second,
  getDefaultPrinter() returns the driver of P1 if P2 does not set the default flag, and
  the driver of P2 if it does; after unregisterPrinter(P1), which succeeds,
  getDefaultPrinter() returns the driver of P2; and after P2 is unregistered too,
  getDefaultPrinter() returns null.
\<close>

theorem C5_default_printer:
  assumes r1: "registerPrinter P1 (PrinterRegistry_new (PrinterFactory_new lib)) = (Inr i1, reg1)"
    and d1: "isDefault P1 = Some True"
    and r2: "registerPrinter P2 reg1 = (Inr i2, reg2)"
  shows "\<exists>a b reg3 reg4.
           CbxPos89ePrinter_new lib (cfg_id P1) P1 = Inr a
         \<and> CbxPos89ePrinter_new lib (cfg_id P2) P2 = Inr b
         \<and> getPrinter (cfg_id P1) reg2 = Some a
         \<and> getPrinter (cfg_id P2) reg2 = Some b
         \<and> getDefaultPrinter reg2 = (if isDefault P2 = Some True then Some b else Some a)
         \<and> unregisterPrinter (CbxPos89ePrinter_methods lib now) (cfg_id P1) reg2 = (Inr (), reg3)
         \<and> getDefaultPrinter reg3 = Some b
         \<and> unregisterPrinter (CbxPos89ePrinter_methods lib now) (cfg_id P2) reg3 = (Inr (), reg4)
         \<and> getDefaultPrinter reg4 = None"
proof -
  let ?fac = "PrinterFactory_new lib"
  let ?ops = "CbxPos89ePrinter_methods lib now"
  from registerPrinter_success [OF r1]
  obtain a where v1: "validateConfig ?fac P1"
    and a: "createPrinter ?fac P1 = Inr a"
    and reg1: "reg1 =
          reg_emit ''printer_registered'' (cfg_id P1) (Some P1)
            \<lparr>printers = [(cfg_id P1, a)], configs = [(cfg_id P1, P1)],
             defaultPrinterId = Some (cfg_id P1), factory = ?fac, reg_emitted = []\<rparr>"
    by (auto simp add: PrinterRegistry_new_def d1)
  have fac1: "factory reg1 = ?fac" and pr1: "printers reg1 = [(cfg_id P1, a)]"
    and df1: "defaultPrinterId reg1 = Some (cfg_id P1)"
    by (simp_all add: reg1 reg_emit_def)
  from registerPrinter_success [OF r2]
  obtain b where v2: "validateConfig ?fac P2"
    and fresh: "\<not> Map_has (cfg_id P2) (printers reg1)"
    and b: "createPrinter ?fac P2 = Inr b"
    and reg2: "reg2 =
          reg_emit ''printer_registered'' (cfg_id P2) (Some P2)
            (reg1\<lparr>printers := Map_set (cfg_id P2) b (printers reg1),
                  configs := Map_set (cfg_id P2) P2 (configs reg1),
                  defaultPrinterId :=
                    (if isDefault P2 = Some True
                        \<or> length (Map_set (cfg_id P2) b (printers reg1)) = 1
                     then Some (cfg_id P2) else defaultPrinterId reg1)\<rparr>)"
    by (auto simp add: fac1)
  have ne: "cfg_id P1 \<noteq> cfg_id P2"
    using fresh by (auto simp add: pr1 Map_has_def)
  have n1: "cfg_id P1 \<noteq> []" and n2: "cfg_id P2 \<noteq> []"
    using v1 v2 by (auto dest: valid_id_nonempty)
  have ca: "CbxPos89ePrinter_new lib (cfg_id P1) P1 = Inr a"
    and cb: "CbxPos89ePrinter_new lib (cfg_id P2) P2 = Inr b"
    using a b by (auto dest: createPrinter_default_success)
  have oa: "\<not> p_isConnected a" and ob: "\<not> p_isConnected b"
    using ca cb by (auto dest: new_printer_offline)
  have pr2: "printers reg2 = [(cfg_id P1, a), (cfg_id P2, b)]"
    using ne by (simp add: reg2 pr1 reg_emit_def)
  have df2: "defaultPrinterId reg2 =
               (if isDefault P2 = Some True then Some (cfg_id P2) else Some (cfg_id P1))"
    using ne by (simp add: reg2 pr1 df1 reg_emit_def)
  have g1: "getPrinter (cfg_id P1) reg2 = Some a" and g2: "getPrinter (cfg_id P2) reg2 = Some b"
    using ne by (simp_all add: getPrinter_def Map_get_def pr2)
  have gd2: "getDefaultPrinter reg2 = (if isDefault P2 = Some True then Some b else Some a)"
    using n1 n2 g1 g2 by (simp add: getDefaultPrinter_def df2)
  obtain reg3 where u1: "unregisterPrinter ?ops (cfg_id P1) reg2 = (Inr (), reg3)"
    and pr3: "printers reg3 = [(cfg_id P2, b)]"
    and df3: "defaultPrinterId reg3 = Some (cfg_id P2)"
    using ne oa
    by (simp add: unregisterPrinter_def Map_get_def pr2 df2 CbxPos89ePrinter_methods_def
        dispose_def Map_delete_def Map_first_key_def reg_emit_def Let_def)
  have gd3: "getDefaultPrinter reg3 = Some b"
    using n2 by (simp add: getDefaultPrinter_def getPrinter_def Map_get_def df3 pr3)
  obtain reg4 where u2: "unregisterPrinter ?ops (cfg_id P2) reg3 = (Inr (), reg4)"
    and df4: "defaultPrinterId reg4 = None"
    using ob
    by (simp add: unregisterPrinter_def Map_get_def pr3 df3 CbxPos89ePrinter_methods_def
        dispose_def Map_delete_def Map_first_key_def reg_emit_def Let_def)
  have gd4: "getDefaultPrinter reg4 = None"
    by (simp add: getDefaultPrinter_def df4)
  show ?thesis
    using ca cb g1 g2 gd2 u1 gd3 u2 gd4 by blast
qed

lemma cfg2_valid: "validateConfig (PrinterFactory_new ok_lib) cfg2"
  by (simp add: validateConfig_def validateBasicConfig_def truthy_and_outside_def
      default_factory_maps Map_get_def validateGenericEscPosConfig_def cfg2_def enum_defs)

lemma cfg2_default_valid: "validateConfig (PrinterFactory_new ok_lib) cfg2_default"
  by (simp add: validateConfig_def validateBasicConfig_def truthy_and_outside_def
      default_factory_maps Map_get_def validateGenericEscPosConfig_def cfg2_default_def
      cfg2_def enum_defs)

lemma registerPrinter_ok:
  assumes "validateConfig (factory reg) c" and "\<not> Map_has (cfg_id c) (printers reg)"
    and "createPrinter (factory reg) c = Inr p"
  shows "registerPrinter c reg =
           (Inr (cfg_id c),
            reg_emit ''printer_registered'' (cfg_id c) (Some c)
              (reg\<lparr>printers := Map_set (cfg_id c) p (printers reg),
                   configs := Map_set (cfg_id c) c (configs reg),
                   defaultPrinterId :=
                     (if isDefault c = Some True
                         \<or> length (Map_set (cfg_id c) p (printers reg)) = 1
                      then Some (cfg_id c) else defaultPrinterId reg)\<rparr>))"
  using assms
  by (simp add: registerPrinter_def registerPrinter_try_def catchT_def Let_def)

lemma create_ok_lib:
  assumes "validateConfig (PrinterFactory_new ok_lib) c"
    and "cfg_type c = ''cbx_pos_89e'' \<or> cfg_type c = ''generic_esc_pos''"
  shows "createPrinter (PrinterFactory_new ok_lib) c =
           Inr \<lparr>prn_id = cfg_id c, config = c, p_isConnected = False, p_status = OFFLINE,
                posPrinter = True, thermalPrinter = True, lastJobId = 0, emitted = [],
                world = \<lparr>lib_state = (), calls = []\<rparr>\<rparr>"
  using assms
  by (auto simp add: createPrinter_def default_factory_maps Map_get_def
      CbxPos89ePrinter_new_def ok_lib_def)

lemma registry_1_fields:
  "fst (registerPrinter cfg1 empty_registry) = Inr ''p1''"
  "printers registry_1 = [(''p1'', new_p1)]"
  "defaultPrinterId registry_1 = Some ''p1''"
  "factory registry_1 = PrinterFactory_new ok_lib"
proof -
  have f: "factory empty_registry = PrinterFactory_new ok_lib"
    and e: "printers empty_registry = []"
    by (simp_all add: empty_registry_def PrinterRegistry_new_def)
  have c: "createPrinter (factory empty_registry) cfg1 = Inr new_p1"
    using create_ok_lib [OF cfg1_valid] by (simp add: f cfg1_def new_p1_def)
  have v: "validateConfig (factory empty_registry) cfg1"
    using cfg1_valid by (simp add: f)
  have h: "\<not> Map_has (cfg_id cfg1) (printers empty_registry)"
    by (simp add: e Map_has_def)
  note r = registerPrinter_ok [OF v h c]
  show "fst (registerPrinter cfg1 empty_registry) = Inr ''p1''"
    using r by (simp add: cfg1_def)
  show "printers registry_1 = [(''p1'', new_p1)]"
    using r by (simp add: registry_1_def reg_emit_def e cfg1_def)
  show "defaultPrinterId registry_1 = Some ''p1''"
    using r by (simp add: registry_1_def reg_emit_def e cfg1_def)
  show "factory registry_1 = PrinterFactory_new ok_lib"
    using r by (simp add: registry_1_def reg_emit_def f)
qed

lemma registry_12_fields:
  "fst (registerPrinter cfg2 registry_1) = Inr ''p2''"
  "printers registry_12 = [(''p1'', new_p1), (''p2'', new_p2)]"
  "defaultPrinterId registry_12 = Some ''p1''"
proof -
  have v: "validateConfig (factory registry_1) cfg2"
    using cfg2_valid by (simp add: registry_1_fields)
  have c: "createPrinter (factory registry_1) cfg2 = Inr new_p2"
    using create_ok_lib [OF cfg2_valid] by (simp add: registry_1_fields cfg2_def new_p2_def)
  have h: "\<not> Map_has (cfg_id cfg2) (printers registry_1)"
    by (simp add: registry_1_fields Map_has_def cfg2_def)
  note r = registerPrinter_ok [OF v h c]
  show "fst (registerPrinter cfg2 registry_1) = Inr ''p2''"
    using r by (simp add: cfg2_def)
  show "printers registry_12 = [(''p1'', new_p1), (''p2'', new_p2)]"
    using r by (simp add: registry_12_def reg_emit_def registry_1_fields cfg2_def)
  show "defaultPrinterId registry_12 = Some ''p1''"
    using r by (simp add: registry_12_def reg_emit_def registry_1_fields cfg2_def)
qed

lemma registry_12_default_fields:
  "fst (registerPrinter cfg2_default registry_1) = Inr ''p2''"
  "printers registry_12_default = [(''p1'', new_p1), (''p2'', new_p2_default)]"
  "defaultPrinterId registry_12_default = Some ''p2''"
proof -
  have v: "validateConfig (factory registry_1) cfg2_default"
    using cfg2_default_valid by (simp add: registry_1_fields)
  have c: "createPrinter (factory registry_1) cfg2_default = Inr new_p2_default"
    using create_ok_lib [OF cfg2_default_valid]
    by (simp add: registry_1_fields cfg2_default_def cfg2_def new_p2_default_def new_p2_def)
  have h: "\<not> Map_has (cfg_id cfg2_default) (printers registry_1)"
    by (simp add: registry_1_fields Map_has_def cfg2_default_def cfg2_def)
  note r = registerPrinter_ok [OF v h c]
  show "fst (registerPrinter cfg2_default registry_1) = Inr ''p2''"
    using r by (simp add: cfg2_default_def cfg2_def)
  show "printers registry_12_default = [(''p1'', new_p1), (''p2'', new_p2_default)]"
    using r by (simp add: registry_12_default_def reg_emit_def registry_1_fields cfg2_default_def
        cfg2_def)
  show "defaultPrinterId registry_12_default = Some ''p2''"
    using r by (simp add: registry_12_default_def reg_emit_def registry_1_fields cfg2_default_def
        cfg2_def)
qed

theorem C5_witness:
  "fst (registerPrinter cfg1 empty_registry) = Inr ''p1''
   \<and> isDefault cfg1 = Some True
   \<and> fst (registerPrinter cfg2 registry_1) = Inr ''p2''
   \<and> isDefault cfg2 \<noteq> Some True
   \<and> getDefaultPrinter registry_12 = Some new_p1
   \<and> (\<exists>reg3 reg4.
         unregisterPrinter (CbxPos89ePrinter_methods ok_lib 42) ''p1'' registry_12 = (Inr (), reg3)
       \<and> getDefaultPrinter reg3 = Some new_p2
       \<and> unregisterPrinter (CbxPos89ePrinter_methods ok_lib 42) ''p2'' reg3 = (Inr (), reg4)
       \<and> getDefaultPrinter reg4 = None)"
proof -
  have r1: "registerPrinter cfg1 (PrinterRegistry_new (PrinterFactory_new ok_lib))
              = (Inr ''p1'', registry_1)"
    using registry_1_fields(1)
    by (simp add: registry_1_def empty_registry_def prod_eq_iff)
  have d1: "isDefault cfg1 = Some True"
    by (simp add: cfg1_def)
  have r2: "registerPrinter cfg2 registry_1 = (Inr ''p2'', registry_12)"
    using registry_12_fields(1) by (simp add: registry_12_def prod_eq_iff)
  have d2: "isDefault cfg2 \<noteq> Some True"
    by (simp add: cfg2_def)
  from C5_default_printer [OF r1 d1 r2, of 42]
  obtain a b reg3 reg4 where
    a: "getPrinter (cfg_id cfg1) registry_12 = Some a"
    and b: "getPrinter (cfg_id cfg2) registry_12 = Some b"
    and gd: "getDefaultPrinter registry_12 = (if isDefault cfg2 = Some True then Some b else Some a)"
    and u1: "unregisterPrinter (CbxPos89ePrinter_methods ok_lib 42) (cfg_id cfg1) registry_12
               = (Inr (), reg3)"
    and g3: "getDefaultPrinter reg3 = Some b"
    and u2: "unregisterPrinter (CbxPos89ePrinter_methods ok_lib 42) (cfg_id cfg2) reg3
               = (Inr (), reg4)"
    and g4: "getDefaultPrinter reg4 = None"
    by blast
  have ia: "a = new_p1" and ib: "b = new_p2"
    using a b by (simp_all add: getPrinter_def Map_get_def registry_12_fields cfg1_def cfg2_def)
  have i1: "cfg_id cfg1 = ''p1''" and i2: "cfg_id cfg2 = ''p2''"
    by (simp_all add: cfg1_def cfg2_def)
  show ?thesis
    using registry_1_fields(1) d1 registry_12_fields(1) d2 gd u1 g3 u2 g4 ia ib
    by (auto simp add: i1 i2)
qed

text \<open>
  The claim as stated fails when P2 sets the default flag too: the driver registered
  second becomes the default.
\<close>

theorem C5_counterexample:
  "isDefault cfg1 = Some True
   \<and> fst (registerPrinter cfg1 empty_registry) = Inr ''p1''
   \<and> registry_1 = snd (registerPrinter cfg1 empty_registry)
   \<and> fst (registerPrinter cfg2_default registry_1) = Inr ''p2''
   \<and> registry_12_default = snd (registerPrinter cfg2_default registry_1)
   \<and> getPrinter ''p1'' registry_12_default = Some new_p1
   \<and> getDefaultPrinter registry_12_default = Some new_p2_default
   \<and> new_p2_default \<noteq> new_p1"
  using registry_1_fields(1) registry_12_default_fields
  by (simp add: getDefaultPrinter_def getPrinter_def Map_get_def registry_1_def
      registry_12_default_def cfg1_def new_p2_default_def new_p2_def new_p1_def)

subsection \<open>The configuration store: export and import\<close>

lemma config_of_json_of_config: "config_of_json (json_of_config c) = Some (read_back c)"
  by (cases c)
     (simp add: config_of_json_def json_of_config_def string_field_def optional_string_field_def
      optional_number_field_def optional_bool_field_def json_of_number_def read_back_def
      read_back_number_def
      split: option.splits NumberField.splits JSNumber.splits)

lemma configs_of_json_of_configs:
  "configs_of_json (map json_of_config cs) = Some (map read_back cs)"
  by (induction cs) (simp_all add: config_of_json_of_config)

lemma JSON_parse_of_export:
  "JSON_parse (exportConfigs date cm) =
     Some (ParsedObject
             \<lparr>imp_defaultConfigId = defaultConfigId cm,
              imp_configurations = Some (map (read_back \<circ> snd) (configCache cm))\<rparr>)"
  using configs_of_json_of_configs [of "map snd (configCache cm)"]
  by (simp add: JSON_parse_def exportConfigs_def JSON_stringify_def
      optional_null_string_field_def split: option.splits)

lemma read_back_carried:
  "json_carries (st_timeout c) \<Longrightarrow> json_carries (st_retryAttempts c) \<Longrightarrow> read_back c = c"
  by (cases c)
     (auto simp add: read_back_def json_carries_def read_back_number_def
      split: option.splits NumberField.splits JSNumber.splits)

lemma read_back_all_carried:
  "list_all (\<lambda>kv. json_carries (st_timeout (snd kv)) \<and> json_carries (st_retryAttempts (snd kv))) m
   \<Longrightarrow> map (\<lambda>kv. (fst kv, read_back (snd kv))) m = m"
  by (induction m) (auto simp add: read_back_carried)

lemma Map_set_new: "k \<notin> fst ` set m \<Longrightarrow> Map_set k v m = m @ [(k, v)]"
  by (induction m) auto

lemma set_all_keyed:
  assumes "distinct (map fst m)"
    and "list_all (\<lambda>kv. fst kv = st_id (snd kv)) m"
    and "fst ` set acc \<inter> fst ` set m = {}"
  shows "set_all (map snd m) acc = acc @ m"
  using assms
proof (induction m arbitrary: acc)
  case Nil
  then show ?case by simp
next
  case (Cons kv m)
  have k: "fst kv \<notin> fst ` set acc"
    using Cons.prems(3) by auto
  have s: "Map_set (st_id (snd kv)) (snd kv) acc = acc @ [kv]"
    using Cons.prems(2) k by (cases kv) (auto simp add: Map_set_new)
  have d: "fst ` set (acc @ [kv]) \<inter> fst ` set m = {}"
    using Cons.prems(1,3) by auto
  have "set_all (map snd m) (acc @ [kv]) = (acc @ [kv]) @ m"
    using Cons.prems(1,2) d by (intro Cons.IH) auto
  then show ?case
    by (simp add: s)
qed

lemma set_all_roundtrip:
  assumes "distinct (map fst m)" and "list_all (\<lambda>kv. fst kv = st_id (snd kv)) m"
  shows "set_all (map snd m) [] = m"
  using set_all_keyed [OF assms, of "[]"] by simp

lemma snd_read_back: "snd \<circ> (\<lambda>kv. (fst kv, read_back (snd kv))) = read_back \<circ> snd"
  by (rule ext) simp

lemma set_all_read_back:
  assumes "distinct (map fst m)" and "list_all (\<lambda>kv. fst kv = st_id (snd kv)) m"
  shows "set_all (map (read_back \<circ> snd) m) [] = map (\<lambda>kv. (fst kv, read_back (snd kv))) m"
proof -
  let ?m = "map (\<lambda>kv. (fst kv, read_back (snd kv))) m"
  have a: "distinct (map fst ?m)"
    using assms(1) by (simp add: comp_def)
  have b: "list_all (\<lambda>kv. fst kv = st_id (snd kv)) ?m"
    using assms(2) by (simp add: list_all_iff read_back_def)
  show ?thesis
    using set_all_roundtrip [OF a b] by (simp add: snd_read_back)
qed

lemma Map_has_read_back:
  "Map_has d (map (\<lambda>kv. (fst kv, read_back (snd kv))) m) = Map_has d m"
  by (induction m) (auto simp add: Map_has_def)

lemma cfg1_store_valid: "ConfigManager_validateConfig (stored cfg1)"
  by (simp add: ConfigManager_validateConfig_def field_truthy_and_outside_def stored_def
      cfg1_def enum_defs)

lemma cfg2_store_valid: "ConfigManager_validateConfig (stored cfg2)"
  by (simp add: ConfigManager_validateConfig_def field_truthy_and_outside_def stored_def
      cfg2_def enum_defs)

lemma cfg_nan_store_valid: "ConfigManager_validateConfig cfg_nan"
  by (simp add: ConfigManager_validateConfig_def field_truthy_and_outside_def stored_def
      cfg_nan_def cfg1_def enum_defs)

lemma cfg_slow_store_invalid: "\<not> ConfigManager_validateConfig (stored cfg_slow)"
  by (simp add: ConfigManager_validateConfig_def field_truthy_and_outside_def stored_def
      cfg_slow_def cfg1_def enum_defs)

lemma store_2_reached: "saveConfig fs_ok ''t0'' (stored cfg2) store_new = (Inr (), store_2)"
  using cfg2_store_valid
  by (simp add: saveConfig_def saveConfig_try_def catchT_def saveConfigurationsToFile_def
      fs_ok_def store_new_def store_2_def Let_def)
     (simp add: stored_def cfg2_def)

lemma store_12_reached:
  "saveConfig fs_ok ''t0'' (stored cfg1) store_new
     = (Inr (), \<lparr>defaultConfigId = Some ''p1'', configCache = [(''p1'', stored cfg1)]\<rparr>)"
  "saveConfig fs_ok ''t1'' (stored cfg2)
       \<lparr>defaultConfigId = Some ''p1'', configCache = [(''p1'', stored cfg1)]\<rparr>
     = (Inr (), store_12)"
  using cfg1_store_valid cfg2_store_valid
  by (simp_all add: saveConfig_def saveConfig_try_def catchT_def saveConfigurationsToFile_def
      fs_ok_def store_new_def store_12_def Let_def)
     (simp_all add: stored_def cfg1_def cfg2_def)

lemma store_nan_reached: "saveConfig fs_ok ''t0'' cfg_nan store_new = (Inr (), store_nan)"
  using cfg_nan_store_valid
  by (simp add: saveConfig_def saveConfig_try_def catchT_def saveConfigurationsToFile_def
      fs_ok_def store_new_def store_nan_def Let_def)
     (simp add: cfg_nan_def stored_def cfg1_def)

text \<open>
  C8 (amended). Take a store in which each configuration is kept under its own identifier
  (the keys of a Map are distinct), and hand the text of exportConfigs() to importConfigs.
  The text is read back as the stored configurations, in their order, except that a
  timeout or retry count that held \<open>NaN\<close> or an infinity holds \<open>null\<close>. Then:
  if one of the configurations read back does not pass validateConfig, the call raises a
  PrinterError that names the first such configuration, and the store is untouched;
  otherwise, if the default identifier names a stored configuration (or the store is
  empty), the store holds the configurations read back under their identifiers and the
  same default identifier, and the call raises only if the file cannot be written;
  otherwise (a non-empty store without a default identifier, or with one that names no
  stored configuration), the first configuration has become the default and its isDefault
  field is true. The configurations read back are the stored ones, field for field, when
  every timeout and retry count is a finite number, \<open>null\<close> or absent.
\<close>

theorem C8_export_import_roundtrip:
  assumes "distinct (map fst (configCache cm))"
    and "list_all (\<lambda>kv. fst kv = st_id (snd kv)) (configCache cm)"
  shows
    "(\<forall>c. first_invalid (map (read_back \<circ> snd) (configCache cm)) = Some c \<longrightarrow>
        import_of_export fs date date' cm =
          Some (Inl (PrinterError
                       (''Failed to import configurations: '' @ ''Invalid configuration: ''
                          @ or_string (Some (st_id c)) ''unknown'')
                       INVALID_CONFIG None
                       (Some (Error (''Invalid configuration: ''
                                       @ or_string (Some (st_id c)) ''unknown'')))),
                cm))
   \<and> (first_invalid (map (read_back \<circ> snd) (configCache cm)) = None
        \<and> (configCache cm = []
            \<or> (\<exists>d. defaultConfigId cm = Some d \<and> d \<noteq> [] \<and> Map_has d (configCache cm))) \<longrightarrow>
        import_of_export fs date date' cm =
          Some ((case fs (JSON_stringify
                            \<lparr>doc_version = ''1.0'', doc_date = (''lastUpdated'', date'),
                             doc_defaultConfigId = defaultConfigId cm,
                             doc_configurations = map (read_back \<circ> snd) (configCache cm)\<rparr>) of
                   None \<Rightarrow> Inr ()
                 | Some m \<Rightarrow>
                     Inl (PrinterError (''Failed to import configurations: '' @ m)
                            INVALID_CONFIG None (Some (Error m)))),
                \<lparr>defaultConfigId = defaultConfigId cm,
                 configCache = map (\<lambda>kv. (fst kv, read_back (snd kv))) (configCache cm)\<rparr>))
   \<and> (\<forall>k v rest.
        first_invalid (map (read_back \<circ> snd) (configCache cm)) = None
        \<and> configCache cm = (k, v) # rest
        \<and> \<not> (\<exists>d. defaultConfigId cm = Some d \<and> d \<noteq> [] \<and> Map_has d (configCache cm)) \<longrightarrow>
        import_of_export fs date date' cm =
          Some ((case fs (JSON_stringify
                            \<lparr>doc_version = ''1.0'', doc_date = (''lastUpdated'', date'),
                             doc_defaultConfigId = Some k,
                             doc_configurations =
                               (read_back v)\<lparr>st_isDefault := Some True\<rparr>
                                 # map (read_back \<circ> snd) rest\<rparr>) of
                   None \<Rightarrow> Inr ()
                 | Some m \<Rightarrow>
                     Inl (PrinterError (''Failed to import configurations: '' @ m)
                            INVALID_CONFIG None (Some (Error m)))),
                \<lparr>defaultConfigId = Some k,
                 configCache =
                   (k, (read_back v)\<lparr>st_isDefault := Some True\<rparr>)
                     # map (\<lambda>kv. (fst kv, read_back (snd kv))) rest\<rparr>))
   \<and> (list_all (\<lambda>kv. json_carries (st_timeout (snd kv))
                      \<and> json_carries (st_retryAttempts (snd kv))) (configCache cm) \<longrightarrow>
        map (\<lambda>kv. (fst kv, read_back (snd kv))) (configCache cm) = configCache cm)"
proof -
  note rt = set_all_read_back [OF assms]
  note p = JSON_parse_of_export [of date cm]
  have A: "import_of_export fs date date' cm =
          Some (Inl (PrinterError
                       (''Failed to import configurations: '' @ ''Invalid configuration: ''
                          @ or_string (Some (st_id c)) ''unknown'')
                       INVALID_CONFIG None
                       (Some (Error (''Invalid configuration: ''
                                       @ or_string (Some (st_id c)) ''unknown'')))),
                cm)"
    if "first_invalid (map (read_back \<circ> snd) (configCache cm)) = Some c" for c
    using that
    by (simp add: import_of_export_def p importConfigs_def importConfigs_try_def catchT_def
        throwT_def)
  have B: "import_of_export fs date date' cm =
          Some ((case fs (JSON_stringify
                            \<lparr>doc_version = ''1.0'', doc_date = (''lastUpdated'', date'),
                             doc_defaultConfigId = defaultConfigId cm,
                             doc_configurations = map (read_back \<circ> snd) (configCache cm)\<rparr>) of
                   None \<Rightarrow> Inr ()
                 | Some m \<Rightarrow>
                     Inl (PrinterError (''Failed to import configurations: '' @ m)
                            INVALID_CONFIG None (Some (Error m)))),
                \<lparr>defaultConfigId = defaultConfigId cm,
                 configCache = map (\<lambda>kv. (fst kv, read_back (snd kv))) (configCache cm)\<rparr>)"
    if v: "first_invalid (map (read_back \<circ> snd) (configCache cm)) = None"
      and u: "configCache cm = []
            \<or> (\<exists>d. defaultConfigId cm = Some d \<and> d \<noteq> [] \<and> Map_has d (configCache cm))"
  proof (cases "configCache cm = []")
    case True
    then show ?thesis
      by (simp add: import_of_export_def p importConfigs_def importConfigs_try_def catchT_def
          throwT_def saveConfigurationsToFile_def Map_has_def
          split: option.splits)
  next
    case False
    then obtain d where d: "defaultConfigId cm = Some d" "d \<noteq> []" "Map_has d (configCache cm)"
      using u by auto
    show ?thesis
      using v d
      by (simp add: import_of_export_def p importConfigs_def importConfigs_try_def catchT_def
          throwT_def saveConfigurationsToFile_def rt Map_has_read_back snd_read_back Let_def
          split: option.splits)
  qed
  have C: "import_of_export fs date date' cm =
          Some ((case fs (JSON_stringify
                            \<lparr>doc_version = ''1.0'', doc_date = (''lastUpdated'', date'),
                             doc_defaultConfigId = Some k,
                             doc_configurations =
                               (read_back v)\<lparr>st_isDefault := Some True\<rparr>
                                 # map (read_back \<circ> snd) rest\<rparr>) of
                   None \<Rightarrow> Inr ()
                 | Some m \<Rightarrow>
                     Inl (PrinterError (''Failed to import configurations: '' @ m)
                            INVALID_CONFIG None (Some (Error m)))),
                \<lparr>defaultConfigId = Some k,
                 configCache =
                   (k, (read_back v)\<lparr>st_isDefault := Some True\<rparr>)
                     # map (\<lambda>kv. (fst kv, read_back (snd kv))) rest\<rparr>)"
    if v: "first_invalid (map (read_back \<circ> snd) (configCache cm)) = None"
      and c: "configCache cm = (k, v) # rest"
      and u: "\<not> (\<exists>d. defaultConfigId cm = Some d \<and> d \<noteq> [] \<and> Map_has d (configCache cm))"
    for k v rest
  proof -
    have s: "set_all (map (read_back \<circ> snd) (configCache cm)) []
               = (k, read_back v) # map (\<lambda>kv. (fst kv, read_back (snd kv))) rest"
      using rt by (simp add: c)
    have "\<not> Map_has d (map (\<lambda>kv. (fst kv, read_back (snd kv))) (configCache cm))"
      if "defaultConfigId cm = Some d" "d \<noteq> []" for d
      using u that by (simp add: Map_has_read_back)
    then have n: "(case defaultConfigId cm of
                     None \<Rightarrow> False
                   | Some d \<Rightarrow>
                       d \<noteq> []
                       \<and> Map_has d ((k, read_back v)
                                      # map (\<lambda>kv. (fst kv, read_back (snd kv))) rest))
                  = False"
      by (auto simp add: c split: option.splits)
    show ?thesis
      by (simp add: import_of_export_def p importConfigs_def importConfigs_try_def catchT_def
          throwT_def saveConfigurationsToFile_def v s n snd_read_back Let_def
          split: option.splits)
  qed
  have D: "map (\<lambda>kv. (fst kv, read_back (snd kv))) (configCache cm) = configCache cm"
    if "list_all (\<lambda>kv. json_carries (st_timeout (snd kv))
                      \<and> json_carries (st_retryAttempts (snd kv))) (configCache cm)"
    using that by (rule read_back_all_carried)
  show ?thesis
    using A B C D by blast
qed


text \<open>
  The three cases at example stores: the store of \<open>cfg1\<close> and \<open>cfg2\<close> with the default
  \<open>p1\<close> is restored; in the store of \<open>cfg2\<close> without default, \<open>cfg2\<close> becomes the
  default; the store that holds \<open>cfg_slow\<close> is rejected and left as it was.
\<close>

theorem C8_witness:
  "distinct (map fst (configCache store_12))
   \<and> list_all (\<lambda>kv. fst kv = st_id (snd kv)) (configCache store_12)
   \<and> list_all (\<lambda>kv. json_carries (st_timeout (snd kv))
                     \<and> json_carries (st_retryAttempts (snd kv))) (configCache store_12)
   \<and> defaultConfigId store_12 = Some ''p1'' \<and> Map_has ''p1'' (configCache store_12)
   \<and> import_of_export fs_ok ''t2'' ''t3'' store_12 = Some (Inr (), store_12)
   \<and> distinct (map fst (configCache store_2))
   \<and> list_all (\<lambda>kv. fst kv = st_id (snd kv)) (configCache store_2)
   \<and> defaultConfigId store_2 = None
   \<and> first_invalid (map (read_back \<circ> snd) (configCache store_2)) = None
   \<and> import_of_export fs_ok ''t2'' ''t3'' store_2
       = Some (Inr (),
               \<lparr>defaultConfigId = Some ''p2'',
                configCache = [(''p2'', (stored cfg2)\<lparr>st_isDefault := Some True\<rparr>)]\<rparr>)
   \<and> distinct (map fst (configCache store_slow))
   \<and> list_all (\<lambda>kv. fst kv = st_id (snd kv)) (configCache store_slow)
   \<and> first_invalid (map (read_back \<circ> snd) (configCache store_slow)) = Some (stored cfg_slow)
   \<and> import_of_export fs_ok ''t2'' ''t3'' store_slow
       = Some (Inl (PrinterError
                      ''Failed to import configurations: Invalid configuration: p1''
                      INVALID_CONFIG None (Some (Error ''Invalid configuration: p1''))),
               store_slow)"
proof -
  have a: "distinct (map fst (configCache store_12))"
    by (simp add: store_12_def)
  have b: "list_all (\<lambda>kv. fst kv = st_id (snd kv)) (configCache store_12)"
    by (simp add: store_12_def stored_def cfg1_def cfg2_def)
  have j: "list_all (\<lambda>kv. json_carries (st_timeout (snd kv))
                      \<and> json_carries (st_retryAttempts (snd kv))) (configCache store_12)"
    by (simp add: store_12_def stored_def cfg1_def cfg2_def json_carries_def)
  have m: "Map_has ''p1'' (configCache store_12)"
    by (simp add: store_12_def Map_has_def)
  have d: "defaultConfigId store_12 = Some ''p1''"
    by (simp add: store_12_def)
  have r: "read_back (stored cfg1) = stored cfg1" "read_back (stored cfg2) = stored cfg2"
    by (simp_all add: read_back_def read_back_number_def stored_def cfg1_def cfg2_def)
  have v: "first_invalid (map (read_back \<circ> snd) (configCache store_12)) = None"
    using cfg1_store_valid cfg2_store_valid by (simp add: store_12_def r)
  have e: "\<lparr>defaultConfigId = defaultConfigId store_12,
            configCache = map (\<lambda>kv. (fst kv, read_back (snd kv))) (configCache store_12)\<rparr>
           = store_12"
    by (simp add: store_12_def r)
  have w12: "import_of_export fs_ok ''t2'' ''t3'' store_12 = Some (Inr (), store_12)"
    using C8_export_import_roundtrip [OF a b, of fs_ok "''t2''" "''t3''"] v m d e
    by (simp add: fs_ok_def)
  have a2: "distinct (map fst (configCache store_2))"
    by (simp add: store_2_def)
  have b2: "list_all (\<lambda>kv. fst kv = st_id (snd kv)) (configCache store_2)"
    by (simp add: store_2_def stored_def cfg2_def)
  have d2: "defaultConfigId store_2 = None"
    by (simp add: store_2_def)
  have c2: "configCache store_2 = [(''p2'', stored cfg2)]"
    by (simp add: store_2_def)
  have v2: "first_invalid (map (read_back \<circ> snd) (configCache store_2)) = None"
    using cfg2_store_valid by (simp add: store_2_def r)
  have w2: "import_of_export fs_ok ''t2'' ''t3'' store_2
       = Some (Inr (),
               \<lparr>defaultConfigId = Some ''p2'',
                configCache = [(''p2'', (stored cfg2)\<lparr>st_isDefault := Some True\<rparr>)]\<rparr>)"
    using C8_export_import_roundtrip [OF a2 b2, of fs_ok "''t2''" "''t3''"] v2 d2 c2
    by (simp add: fs_ok_def r)
  have a3: "distinct (map fst (configCache store_slow))"
    by (simp add: store_slow_def)
  have b3: "list_all (\<lambda>kv. fst kv = st_id (snd kv)) (configCache store_slow)"
    by (simp add: store_slow_def stored_def cfg_slow_def cfg1_def)
  have r3: "read_back (stored cfg_slow) = stored cfg_slow"
    by (simp add: read_back_def read_back_number_def stored_def cfg_slow_def cfg1_def)
  have v3: "first_invalid (map (read_back \<circ> snd) (configCache store_slow)) = Some (stored cfg_slow)"
    using cfg_slow_store_invalid by (simp add: store_slow_def r3)
  have i3: "st_id (stored cfg_slow) = ''p1''"
    by (simp add: stored_def cfg_slow_def cfg1_def)
  have w3: "import_of_export fs_ok ''t2'' ''t3'' store_slow
       = Some (Inl (PrinterError
                      ''Failed to import configurations: Invalid configuration: p1''
                      INVALID_CONFIG None (Some (Error ''Invalid configuration: p1''))),
               store_slow)"
    using C8_export_import_roundtrip [OF a3 b3, of fs_ok "''t2''" "''t3''"] v3
    by (simp add: i3 or_string_def)
  show ?thesis
    using a b j d m w12 a2 b2 d2 v2 w2 a3 b3 v3 w3 by simp
qed

text \<open>
  The claim as stated fails. The store that saveConfig builds from \<open>cfg2\<close>, which holds
  one configuration and no default, comes back with that configuration as the default and
  its isDefault field set; the store that saveConfig builds from a configuration with the
  timeout \<open>NaN\<close> comes back with the timeout \<open>null\<close>.
\<close>

theorem C8_counterexample:
  "saveConfig fs_ok ''t0'' (stored cfg2) store_new = (Inr (), store_2)
   \<and> defaultConfigId store_2 = None
   \<and> configCache store_2 = [(''p2'', stored cfg2)]
   \<and> st_isDefault (stored cfg2) = None
   \<and> import_of_export fs_ok ''t2'' ''t3'' store_2
       = Some (Inr (),
               \<lparr>defaultConfigId = Some ''p2'',
                configCache = [(''p2'', (stored cfg2)\<lparr>st_isDefault := Some True\<rparr>)]\<rparr>)
   \<and> saveConfig fs_ok ''t0'' cfg_nan store_new = (Inr (), store_nan)
   \<and> defaultConfigId store_nan = Some ''p1''
   \<and> configCache store_nan = [(''p1'', cfg_nan)]
   \<and> st_timeout cfg_nan = Some (Number NaN)
   \<and> import_of_export fs_ok ''t2'' ''t3'' store_nan
       = Some (Inr (),
               \<lparr>defaultConfigId = Some ''p1'',
                configCache = [(''p1'', cfg_nan\<lparr>st_timeout := Some Null\<rparr>)]\<rparr>)"
proof -
  have r2: "read_back (stored cfg2) = stored cfg2"
    by (simp add: read_back_def read_back_number_def stored_def cfg2_def)
  have rn: "read_back cfg_nan = cfg_nan\<lparr>st_timeout := Some Null\<rparr>"
    by (simp add: read_back_def read_back_number_def cfg_nan_def stored_def cfg1_def)
  have vn: "ConfigManager_validateConfig (cfg_nan\<lparr>st_timeout := Some Null\<rparr>)"
    by (simp add: ConfigManager_validateConfig_def field_truthy_and_outside_def stored_def
        cfg_nan_def cfg1_def enum_defs)
  have i: "st_id cfg_nan = ''p1''"
    by (simp add: cfg_nan_def stored_def cfg1_def)
  have w2: "import_of_export fs_ok ''t2'' ''t3'' store_2
       = Some (Inr (),
               \<lparr>defaultConfigId = Some ''p2'',
                configCache = [(''p2'', (stored cfg2)\<lparr>st_isDefault := Some True\<rparr>)]\<rparr>)"
    using cfg2_store_valid
    by (simp add: import_of_export_def JSON_parse_of_export importConfigs_def
        importConfigs_try_def catchT_def saveConfigurationsToFile_def fs_ok_def store_2_def
        Map_has_def r2)
       (simp add: stored_def cfg2_def)
  have wn: "import_of_export fs_ok ''t2'' ''t3'' store_nan
       = Some (Inr (),
               \<lparr>defaultConfigId = Some ''p1'',
                configCache = [(''p1'', cfg_nan\<lparr>st_timeout := Some Null\<rparr>)]\<rparr>)"
    using vn
    by (simp add: import_of_export_def JSON_parse_of_export importConfigs_def
        importConfigs_try_def catchT_def saveConfigurationsToFile_def fs_ok_def store_nan_def
        Map_has_def rn i)
  show ?thesis
    using store_2_reached store_nan_reached w2 wn
    by (simp add: store_2_def store_nan_def) (simp add: stored_def cfg2_def cfg_nan_def)
qed

subsection \<open>Discovery\<close>

lemma discoverUSBPrinters_returns: "\<exists>usb. discoverUSBPrinters h = Inr usb"
  by (simp add: discoverUSBPrinters_def split: sum.splits)

lemma os_discovery_returns:
  "\<exists>os. (if platform h = ''win32'' then discoverWindowsPrinters h
          else if platform h = ''darwin'' then discoverMacOSPrinters h
          else discoverLinuxPrinters h) = Inr os"
  by (simp add: discoverWindowsPrinters_def discoverMacOSPrinters_def
      discoverLinuxPrinters_def split: sum.splits)

lemma probe_ip_eq:
  "probe_ip h = (\<lambda>ip. if socket_connect h ip 9100 = Connected then [network_result ip] else [])"
proof (rule ext)
  fix ip
  show "probe_ip h ip = (if socket_connect h ip 9100 = Connected then [network_result ip] else [])"
    by (cases "socket_connect h ip 9100") (simp_all add: probe_ip_def checkNetworkPrinter_def)
qed

text \<open>
  C7. discoverPrinters() never raises: it returns the results of the USB enumeration,
  of the platform's printer listing and of the network probing, in this order. A path
  whose tool fails contributes nothing and the other paths run all the same; in the
  network path every address is probed, and one that does not accept the connection
  (error, no answer, or a socket that cannot be made) is left out, the others kept. When
  no tool runs and no address accepts a connection, the result is the empty list.
\<close>

theorem C7_discovery_never_raises:
  "(\<exists>usb os.
       discoverUSBPrinters h = Inr usb
     \<and> (if platform h = ''win32'' then discoverWindowsPrinters h
         else if platform h = ''darwin'' then discoverMacOSPrinters h
         else discoverLinuxPrinters h) = Inr os
     \<and> discoverNetworkPrinters h =
         Inr (concat (map (\<lambda>ip. if socket_connect h ip 9100 = Connected
                               then [network_result ip] else []) commonIPs))
     \<and> discoverPrinters h =
         Inr (usb @ os
              @ concat (map (\<lambda>ip. if socket_connect h ip 9100 = Connected
                                  then [network_result ip] else []) commonIPs)))
   \<and> ((\<exists>e. execSync h (usb_tool (platform h)) = Inl e) \<longrightarrow> discoverUSBPrinters h = Inr [])
   \<and> ((\<exists>e. execSync h (os_tool (platform h)) = Inl e) \<longrightarrow>
        (if platform h = ''win32'' then discoverWindowsPrinters h
         else if platform h = ''darwin'' then discoverMacOSPrinters h
         else discoverLinuxPrinters h) = Inr [])
   \<and> ((\<forall>cmd. \<exists>e. execSync h cmd = Inl e) \<and> (\<forall>ip port. socket_connect h ip port \<noteq> Connected)
        \<longrightarrow> discoverPrinters h = Inr [])"
proof -
  obtain usb where u: "discoverUSBPrinters h = Inr usb"
    using discoverUSBPrinters_returns by blast
  obtain os where o: "(if platform h = ''win32'' then discoverWindowsPrinters h
                       else if platform h = ''darwin'' then discoverMacOSPrinters h
                       else discoverLinuxPrinters h) = Inr os"
    using os_discovery_returns by blast
  have n: "discoverNetworkPrinters h =
             Inr (concat (map (\<lambda>ip. if socket_connect h ip 9100 = Connected
                                   then [network_result ip] else []) commonIPs))"
    by (simp add: discoverNetworkPrinters_def probe_ip_eq)
  have d: "discoverPrinters h =
             Inr (usb @ os
                  @ concat (map (\<lambda>ip. if socket_connect h ip 9100 = Connected
                                      then [network_result ip] else []) commonIPs))"
    unfolding discoverPrinters_def u o n by simp
  have fu: "discoverUSBPrinters h = Inr []" if "execSync h (usb_tool (platform h)) = Inl e" for e
    using that by (auto simp add: discoverUSBPrinters_def usb_tool_def split: if_splits)
  have fo: "(if platform h = ''win32'' then discoverWindowsPrinters h
             else if platform h = ''darwin'' then discoverMacOSPrinters h
             else discoverLinuxPrinters h) = Inr []"
    if "execSync h (os_tool (platform h)) = Inl e" for e
    using that
    by (auto simp add: discoverWindowsPrinters_def discoverMacOSPrinters_def
        discoverLinuxPrinters_def os_tool_def split: if_splits)
  have all: "discoverPrinters h = Inr []"
    if t: "\<forall>cmd. \<exists>e. execSync h cmd = Inl e" and s: "\<forall>ip port. socket_connect h ip port \<noteq> Connected"
  proof -
    have "usb = []" using t fu u by (metis sum.inject(2))
    moreover have "os = []" using t fo o by (metis sum.inject(2))
    ultimately show ?thesis using d s by simp
  qed
  show ?thesis
    using u o n d fu fo all by blast
qed

theorem C7_witness:
  "(\<forall>cmd. \<exists>e. execSync (dead_host ''darwin'') cmd = Inl e)
   \<and> (\<forall>ip port. socket_connect (dead_host ''darwin'') ip port \<noteq> Connected)
   \<and> discoverPrinters (dead_host ''darwin'') = Inr []
   \<and> execSync linux_host (os_tool (platform linux_host))
       = Inl (ExecError ''lpstat: not found'' (Some ''sh: 1: lpstat: not found''))
   \<and> discoverLinuxPrinters linux_host = Inr []
   \<and> socket_connect linux_host ''192.168.1.101'' 9100 = SocketThrows ''EMFILE''
   \<and> discoverPrinters linux_host =
       Inr [usb_result ''Winbond POS Printer'', network_result ''192.168.1.100'']"
proof -
  have a: "\<forall>cmd. \<exists>e. execSync (dead_host ''darwin'') cmd = Inl e"
    by (simp add: dead_host_def)
  have b: "\<forall>ip port. socket_connect (dead_host ''darwin'') ip port \<noteq> Connected"
    by (simp add: dead_host_def)
  have c: "execSync linux_host (os_tool (platform linux_host))
             = Inl (ExecError ''lpstat: not found'' (Some ''sh: 1: lpstat: not found''))"
    by (simp add: linux_host_def os_tool_def)
  have p: "platform linux_host \<noteq> ''win32''" "platform linux_host \<noteq> ''darwin''"
    by (simp_all add: linux_host_def)
  have u: "discoverUSBPrinters linux_host = Inr [usb_result ''Winbond POS Printer'']"
    by code_simp
  have s: "concat (map (\<lambda>ip. if socket_connect linux_host ip 9100 = Connected
                              then [network_result ip] else []) commonIPs)
             = [network_result ''192.168.1.100'']"
    by (simp add: linux_host_def commonIPs_def)
  from C7_discovery_never_raises [of "dead_host ''darwin''"] a b
  have d: "discoverPrinters (dead_host ''darwin'') = Inr []"
    by blast
  from C7_discovery_never_raises [of linux_host] c p
  have o: "discoverLinuxPrinters linux_host = Inr []"
    by auto
  from C7_discovery_never_raises [of linux_host] u o p s
  have l: "discoverPrinters linux_host =
             Inr [usb_result ''Winbond POS Printer'', network_result ''192.168.1.100'']"
    by auto
  show ?thesis
    using a b c d o l by (simp add: linux_host_def)
qed

end
